theory Spec2Isabelle
  imports Main "HOL-Library.Word"
begin

unbundle bit_operations_syntax

section \<open>JavaScript values used by nfc\_handover.js\<close>

text \<open>
  The elements of a \<^verbatim>\<open>Uint8Array\<close> are bytes. Reading a typed array outside its range
  gives \<^verbatim>\<open>undefined\<close>, modelled as \<open>None\<close>. The cursor of a \<^verbatim>\<open>Buffer\<close> is a JavaScript
  Number that only ever holds an integer or \<^verbatim>\<open>NaN\<close> (after \<^verbatim>\<open>offset += undefined\<close>).
  Strings are lists of 8-bit characters: \<^verbatim>\<open>String.fromCharCode\<close> of a byte and
  \<^verbatim>\<open>charCodeAt\<close> are then the identity on character codes.
\<close>

type_synonym byte = "8 word"

datatype jsnum = Num int | NaN

text \<open>Every \<^verbatim>\<open>throw\<close> of the source, and the \<^verbatim>\<open>TypeError\<close> of a property read on
  \<^verbatim>\<open>undefined\<close> or \<^verbatim>\<open>null\<close>.\<close>

datatype exn =
    BufferTooSmall
  | MBNotSetInFirst
  | MBOnlyFirst
  | ChunkedRecord
  | EmbeddedNdefUnparsed
  | ExpectedWellKnownTNF
  | ExpectedCollisionResolution
  | ExpectedRandomNumber
  | OnlyHrHs
  | OnlyAcRecord
  | NoRecordWithId
  | TypeError

text \<open>\<^verbatim>\<open>a + b\<close> on Numbers: \<^verbatim>\<open>NaN\<close> is absorbing.\<close>

fun jsadd :: "jsnum \<Rightarrow> jsnum \<Rightarrow> jsnum" where
  "jsadd (Num a) (Num b) = Num (a + b)"
| "jsadd _ _ = NaN"

text \<open>\<^verbatim>\<open>a > b\<close> on Numbers: false as soon as one side is \<^verbatim>\<open>NaN\<close>.\<close>

fun jsgt :: "jsnum \<Rightarrow> jsnum \<Rightarrow> bool" where
  "jsgt (Num a) (Num b) = (a > b)"
| "jsgt _ _ = False"

text \<open>ToNumber of an octet read from a typed array (\<^verbatim>\<open>undefined\<close> becomes \<^verbatim>\<open>NaN\<close>),
  ToInt32 of it (\<^verbatim>\<open>undefined\<close> becomes 0), and ToInteger of a Number.\<close>

fun toNumber :: "byte option \<Rightarrow> jsnum" where
  "toNumber None = NaN"
| "toNumber (Some b) = Num (uint b)"

fun toInt32 :: "byte option \<Rightarrow> 32 word" where
  "toInt32 None = 0"
| "toInt32 (Some b) = ucast b"

fun toInteger :: "jsnum \<Rightarrow> int" where
  "toInteger NaN = 0"
| "toInteger (Num k) = k"

subsection \<open>NdefUtils\<close>

fun equalArrays :: "byte list \<Rightarrow> byte list \<Rightarrow> bool" where
  "equalArrays [] [] = True"
| "equalArrays (x # xs) (y # ys) = (if x \<noteq> y then False else equalArrays xs ys)"
| "equalArrays _ _ = False"

definition fromUTF8 :: "string \<Rightarrow> byte list" where
  "fromUTF8 str = map (\<lambda>c. of_char c) str"

definition toUTF8 :: "byte list \<Rightarrow> string" where
  "toUTF8 a = map (\<lambda>b. char_of (unat b)) a"

subsection \<open>NdefConsts\<close>

definition MB :: "32 word" where "MB = push_bit 7 1"
definition ME :: "32 word" where "ME = push_bit 6 1"
definition CF :: "32 word" where "CF = push_bit 5 1"
definition SR :: "32 word" where "SR = push_bit 4 1"
definition IL :: "32 word" where "IL = push_bit 3 1"
definition TNF :: "32 word" where "TNF = 0x07"

definition tnf_well_known :: nat where "tnf_well_known = 0x01"
definition tnf_mime_media :: nat where "tnf_mime_media = 0x02"

definition rtd_alternative_carrier :: "byte list" where
  "rtd_alternative_carrier = fromUTF8 ''ac''"
definition rtd_collision_resolution :: "byte list" where
  "rtd_collision_resolution = fromUTF8 ''cr''"
definition rtd_handover_carrier :: "byte list" where
  "rtd_handover_carrier = fromUTF8 ''Hc''"
definition rtd_handover_request :: "byte list" where
  "rtd_handover_request = fromUTF8 ''Hr''"
definition rtd_handover_select :: "byte list" where
  "rtd_handover_select = fromUTF8 ''Hs''"

text \<open>\<^verbatim>\<open>firstOctet & flag\<close> used as a condition: true when the result is not 0.\<close>

definition flagSet :: "byte option \<Rightarrow> 32 word \<Rightarrow> bool" where
  "flagSet octet flag = (toInt32 octet AND flag \<noteq> 0)"

section \<open>Buffer\<close>

record Buffer =
  uint8array :: "byte list"
  offset :: jsnum

definition newBuffer :: "byte list \<Rightarrow> Buffer" where
  "newBuffer a = \<lparr>uint8array = a, offset = Num 0\<rparr>"

text \<open>\<^verbatim>\<open>a[i]\<close> on a typed array: \<^verbatim>\<open>undefined\<close> unless \<open>i\<close> is an index in range.\<close>

fun element :: "byte list \<Rightarrow> jsnum \<Rightarrow> byte option" where
  "element a NaN = None"
| "element a (Num k) = (if 0 \<le> k \<and> k < int (length a) then Some (a ! nat k) else None)"

text \<open>\<^verbatim>\<open>a.subarray(begin, end)\<close>: both bounds go through ToInteger, a negative bound
  counts from the end, both are clamped to the array, and an end before the begin gives
  the empty array.\<close>

definition clampIndex :: "int \<Rightarrow> int \<Rightarrow> int" where
  "clampIndex len k = (if k < 0 then max (len + k) 0 else min k len)"

definition subarray :: "byte list \<Rightarrow> jsnum \<Rightarrow> jsnum \<Rightarrow> byte list" where
  "subarray a begin end' =
     (let len = int (length a);
          beginIndex = clampIndex len (toInteger begin);
          endIndex = clampIndex len (toInteger end')
      in take (nat (max (endIndex - beginIndex) 0)) (drop (nat beginIndex) a))"

definition getOctet :: "Buffer \<Rightarrow> exn + (byte option \<times> Buffer)" where
  "getOctet b =
     (if offset b = Num (int (length (uint8array b))) then Inl BufferTooSmall
      else Inr (element (uint8array b) (offset b), b\<lparr>offset := jsadd (offset b) (Num 1)\<rparr>))"

definition getOctetArray :: "Buffer \<Rightarrow> jsnum \<Rightarrow> exn + (byte list \<times> Buffer)" where
  "getOctetArray b len =
     (if jsgt (jsadd (offset b) len) (Num (int (length (uint8array b)))) then Inl BufferTooSmall
      else Inr (subarray (uint8array b) (offset b) (jsadd (offset b) len),
                b\<lparr>offset := jsadd (offset b) len\<rparr>))"

definition skip :: "Buffer \<Rightarrow> jsnum \<Rightarrow> exn + Buffer" where
  "skip b len =
     (if jsgt (jsadd (offset b) len) (Num (int (length (uint8array b)))) then Inl BufferTooSmall
      else Inr (b\<lparr>offset := jsadd (offset b) len\<rparr>))"

section \<open>NdefCodec\<close>

text \<open>A \<^verbatim>\<open>MozNdefRecord\<close>, built by \<^verbatim>\<open>parseNdefRecord\<close> and the encoders or handed
  over by the platform: \<^verbatim>\<open>tnf\<close> is a number, and \<^verbatim>\<open>type\<close>, \<^verbatim>\<open>id\<close> and \<^verbatim>\<open>payload\<close>
  are typed arrays.\<close>

record MozNdefRecord =
  tnf :: nat
  type_bytes :: "byte list"
  id_bytes :: "byte list"
  payload :: "byte list"

text \<open>The three further length octets of a record that is not short:
  \<^verbatim>\<open>payloadLen <<= 8; payloadLen |= getOctet()\<close>, on 32-bit integers.\<close>

fun readPayloadLen :: "nat \<Rightarrow> 32 word \<Rightarrow> Buffer \<Rightarrow> exn + (32 word \<times> Buffer)" where
  "readPayloadLen 0 payloadLen b = Inr (payloadLen, b)"
| "readPayloadLen (Suc i) payloadLen b =
     (case getOctet b of
        Inl e \<Rightarrow> Inl e
      | Inr (octet, b1) \<Rightarrow> readPayloadLen i (push_bit 8 payloadLen OR toInt32 octet) b1)"

definition parseNdefRecord :: "Buffer \<Rightarrow> byte option \<Rightarrow> exn + (MozNdefRecord \<times> Buffer)" where
  "parseNdefRecord b firstOctet =
     (case getOctet b of Inl e \<Rightarrow> Inl e | Inr (typeLen, b1) \<Rightarrow>
     (case getOctet b1 of Inl e \<Rightarrow> Inl e | Inr (payloadLen0, b2) \<Rightarrow>
     (case (if \<not> flagSet firstOctet SR
            then (case readPayloadLen 3 (toInt32 payloadLen0) b2 of
                    Inl e \<Rightarrow> Inl e
                  | Inr (w, b3) \<Rightarrow> Inr (Num (sint w), b3))
            else Inr (toNumber payloadLen0, b2)) of Inl e \<Rightarrow> Inl e | Inr (payloadLen, b3) \<Rightarrow>
     (case (if flagSet firstOctet IL
            then (case getOctet b3 of
                    Inl e \<Rightarrow> Inl e
                  | Inr (idLen, b4) \<Rightarrow> Inr (toNumber idLen, b4))
            else Inr (Num 0, b3)) of Inl e \<Rightarrow> Inl e | Inr (idLen, b4) \<Rightarrow>
     (case getOctetArray b4 (toNumber typeLen) of Inl e \<Rightarrow> Inl e | Inr (ty, b5) \<Rightarrow>
     (case getOctetArray b5 idLen of Inl e \<Rightarrow> Inl e | Inr (ident, b6) \<Rightarrow>
     (case getOctetArray b6 payloadLen of Inl e \<Rightarrow> Inl e | Inr (pl, b7) \<Rightarrow>
        Inr (\<lparr>tnf = unat (toInt32 firstOctet AND TNF), type_bytes = ty,
              id_bytes = ident, payload = pl\<rparr>, b7))))))))"

text \<open>
  The \<^verbatim>\<open>do ... while\<close> loop of \<^verbatim>\<open>NdefCodec.doParse\<close>. A negative payload length moves
  the cursor back, so the loop need not end: \<open>None\<close> is the run that never returns.
\<close>

partial_function (option) doParseLoop ::
  "Buffer \<Rightarrow> bool \<Rightarrow> MozNdefRecord list \<Rightarrow> (exn + MozNdefRecord list) option" where
  "doParseLoop b isFirstRecord records =
     (case getOctet b of Inl e \<Rightarrow> Some (Inl e) | Inr (firstOctet, b1) \<Rightarrow>
      if isFirstRecord \<and> \<not> flagSet firstOctet MB then Some (Inl MBNotSetInFirst)
      else if \<not> isFirstRecord \<and> flagSet firstOctet MB then Some (Inl MBOnlyFirst)
      else if flagSet firstOctet CF then Some (Inl ChunkedRecord)
      else (case parseNdefRecord b1 firstOctet of Inl e \<Rightarrow> Some (Inl e) | Inr (r, b2) \<Rightarrow>
        if \<not> flagSet firstOctet ME then doParseLoop b2 False (records @ [r])
        else Some (Inr (records @ [r]))))"

declare doParseLoop.simps [code]

definition NdefCodec_doParse :: "Buffer \<Rightarrow> (exn + MozNdefRecord list) option" where
  "NdefCodec_doParse b = doParseLoop b True []"

text \<open>\<^verbatim>\<open>NdefCodec.parse\<close>: \<^verbatim>\<open>null\<close> (the inner \<open>None\<close>) when \<^verbatim>\<open>doParse\<close> throws.\<close>

definition NdefCodec_parse :: "Buffer \<Rightarrow> MozNdefRecord list option option" where
  "NdefCodec_parse b =
     (case NdefCodec_doParse b of
        None \<Rightarrow> None
      | Some (Inl err) \<Rightarrow> Some None
      | Some (Inr records) \<Rightarrow> Some (Some records))"

section \<open>NdefHandoverCodec\<close>

record AlternativeCarrier =
  cps :: nat
  cdr :: MozNdefRecord

text \<open>The object \<^verbatim>\<open>h\<close> built by \<^verbatim>\<open>NdefHandoverCodec.doParse\<close>; \<^verbatim>\<open>h.type\<close> is the string
  \<^verbatim>\<open>'Hs'\<close> or \<^verbatim>\<open>'Hr'\<close>, and \<^verbatim>\<open>h.cr\<close> is only set for \<^verbatim>\<open>'Hr'\<close>.\<close>

record Handover =
  majorVersion :: nat
  minorVersion :: nat
  ac :: "AlternativeCarrier list"
  htype :: string
  cr :: "int option"

fun findNdefRecordWithId :: "byte list \<Rightarrow> MozNdefRecord list \<Rightarrow> exn + MozNdefRecord" where
  "findNdefRecordWithId ident [] = Inl NoRecordWithId"
| "findNdefRecordWithId ident (record # ndef) =
     (if equalArrays ident (id_bytes record) then Inr record
      else findNdefRecordWithId ident ndef)"

definition parseAC :: "byte list \<Rightarrow> MozNdefRecord list \<Rightarrow> exn + AlternativeCarrier" where
  "parseAC acPayload ndef =
     (case getOctet (newBuffer acPayload) of Inl e \<Rightarrow> Inl e | Inr (cpsOctet, b1) \<Rightarrow>
     (case getOctet b1 of Inl e \<Rightarrow> Inl e | Inr (cdrLen, b2) \<Rightarrow>
     (case getOctetArray b2 (toNumber cdrLen) of Inl e \<Rightarrow> Inl e | Inr (cdrId, b3) \<Rightarrow>
     (case findNdefRecordWithId cdrId ndef of Inl e \<Rightarrow> Inl e | Inr record \<Rightarrow>
        Inr \<lparr>cps = unat (toInt32 cpsOctet AND 0x03), cdr = record\<rparr>))))"

text \<open>The \<^verbatim>\<open>for\<close> loop of \<^verbatim>\<open>parseAcRecords\<close> over the records \<^verbatim>\<open>acNdef[offset ..]\<close>,
  pushing onto \<^verbatim>\<open>h.ac\<close>.\<close>

fun parseAcLoop ::
  "AlternativeCarrier list \<Rightarrow> MozNdefRecord list \<Rightarrow> MozNdefRecord list
     \<Rightarrow> exn + AlternativeCarrier list" where
  "parseAcLoop h_ac ndef [] = Inr h_ac"
| "parseAcLoop h_ac ndef (record # rest) =
     (if equalArrays (type_bytes record) rtd_alternative_carrier
      then (case parseAC (payload record) ndef of
              Inl e \<Rightarrow> Inl e
            | Inr a \<Rightarrow> parseAcLoop (h_ac @ [a]) ndef rest)
      else Inl OnlyAcRecord)"

definition parseAcRecords ::
  "AlternativeCarrier list \<Rightarrow> MozNdefRecord list \<Rightarrow> MozNdefRecord list \<Rightarrow> nat
     \<Rightarrow> exn + AlternativeCarrier list" where
  "parseAcRecords h_ac ndef acNdef offs = parseAcLoop h_ac ndef (drop offs acNdef)"

text \<open>What \<^verbatim>\<open>doParse\<close> does once the embedded NDEF message is parsed.\<close>

definition doParseEmbedded ::
  "MozNdefRecord list \<Rightarrow> MozNdefRecord \<Rightarrow> byte option \<Rightarrow> MozNdefRecord list \<Rightarrow> exn + Handover" where
  "doParseEmbedded ndefMsg record version embeddedNdef =
     (let major = unat (drop_bit 4 (toInt32 version));
          minor = unat (toInt32 version AND 0x0f)
      in
      if tnf record \<noteq> tnf_well_known then Inl ExpectedWellKnownTNF
      else if equalArrays (type_bytes record) rtd_handover_select then
        (case parseAcRecords [] ndefMsg embeddedNdef 0 of
           Inl e \<Rightarrow> Inl e
         | Inr acs \<Rightarrow> Inr \<lparr>majorVersion = major, minorVersion = minor, ac = acs,
                          htype = ''Hs'', cr = None\<rparr>)
      else if equalArrays (type_bytes record) rtd_handover_request then
        (case embeddedNdef of
           [] \<Rightarrow> Inl TypeError
         | crr # _ \<Rightarrow>
             if \<not> equalArrays (type_bytes crr) rtd_collision_resolution
             then Inl ExpectedCollisionResolution
             else (case payload crr of
                     [p0, p1] \<Rightarrow>
                       (case parseAcRecords [] ndefMsg embeddedNdef 1 of
                          Inl e \<Rightarrow> Inl e
                        | Inr acs \<Rightarrow>
                            Inr \<lparr>majorVersion = major, minorVersion = minor, ac = acs,
                                 htype = ''Hr'',
                                 cr = Some (sint (push_bit 8 (ucast p0 :: 32 word) OR ucast p1))\<rparr>)
                   | _ \<Rightarrow> Inl ExpectedRandomNumber))
      else Inl OnlyHrHs)"

text \<open>\<^verbatim>\<open>NdefHandoverCodec.doParse\<close>. \<^verbatim>\<open>ndefMsg[0]\<close> of an empty message is
  \<^verbatim>\<open>undefined\<close>, and reading its payload is a \<^verbatim>\<open>TypeError\<close>. The result is \<open>None\<close>
  when the embedded \<^verbatim>\<open>NdefCodec.parse\<close> never returns.\<close>

definition NdefHandoverCodec_doParse :: "MozNdefRecord list \<Rightarrow> (exn + Handover) option" where
  "NdefHandoverCodec_doParse ndefMsg =
     (case ndefMsg of
        [] \<Rightarrow> Some (Inl TypeError)
      | record # _ \<Rightarrow>
          (case getOctet (newBuffer (payload record)) of
             Inl e \<Rightarrow> Some (Inl e)
           | Inr (version, buffer) \<Rightarrow>
               (case NdefCodec_parse buffer of
                  None \<Rightarrow> None
                | Some None \<Rightarrow> Some (Inl EmbeddedNdefUnparsed)
                | Some (Some embeddedNdef) \<Rightarrow>
                    Some (doParseEmbedded ndefMsg record version embeddedNdef))))"

text \<open>\<^verbatim>\<open>NdefHandoverCodec.parse\<close>: \<^verbatim>\<open>null\<close> (the inner \<open>None\<close>) when \<^verbatim>\<open>doParse\<close> throws.\<close>

definition NdefHandoverCodec_parse :: "MozNdefRecord list \<Rightarrow> Handover option option" where
  "NdefHandoverCodec_parse ndefMsg =
     (case NdefHandoverCodec_doParse ndefMsg of
        None \<Rightarrow> None
      | Some (Inl err) \<Rightarrow> Some None
      | Some (Inr h) \<Rightarrow> Some (Some h))"

fun searchAcList :: "AlternativeCarrier list \<Rightarrow> MozNdefRecord option" where
  "searchAcList [] = None"
| "searchAcList (a # rest) =
     (if tnf (cdr a) = tnf_mime_media \<and> toUTF8 (type_bytes (cdr a)) = ''application/vnd.bluetooth.ep.oob''
      then Some (cdr a)
      else searchAcList rest)"

definition searchForBluetoothAC :: "Handover \<Rightarrow> MozNdefRecord option" where
  "searchForBluetoothAC h = searchAcList (ac h)"

subsection \<open>Number.toString(16).toUpperCase() and parseInt(s, 16)\<close>

definition hexDigit :: "nat \<Rightarrow> char" where
  "hexDigit d = ''0123456789abcdef'' ! d"

function toString16 :: "nat \<Rightarrow> string" where
  "toString16 n = (if n < 16 then [hexDigit n] else toString16 (n div 16) @ [hexDigit (n mod 16)])"
  by pat_completeness auto
termination
  by (relation "measure (\<lambda>n. n)") auto

declare toString16.simps [simp del]

text \<open>\<^verbatim>\<open>toUpperCase\<close>, on the letters a to z only: the source applies it to hexadecimal
  numerals.\<close>

definition toUpperCase :: "string \<Rightarrow> string" where
  "toUpperCase s =
     map (\<lambda>c. if 97 \<le> (of_char c :: nat) \<and> (of_char c :: nat) \<le> 122
              then char_of (of_char c - (32::nat)) else c) s"

record BluetoothSSP =
  mac :: string
  localName :: "string option"

text \<open>The \<^verbatim>\<open>for\<close> loop of \<^verbatim>\<open>parseBluetoothSSP\<close> that renders the six address octets;
  \<^verbatim>\<open>o.toString\<close> of \<^verbatim>\<open>undefined\<close> is a \<^verbatim>\<open>TypeError\<close>.\<close>

fun macLoop :: "nat \<Rightarrow> string \<Rightarrow> Buffer \<Rightarrow> exn + (string \<times> Buffer)" where
  "macLoop 0 m buf = Inr (m, buf)"
| "macLoop (Suc i) m buf =
     (let m1 = (if length m > 0 then CHR '':'' # m else m) in
      (case getOctet buf of Inl e \<Rightarrow> Inl e | Inr (octet, buf1) \<Rightarrow>
      (case octet of None \<Rightarrow> Inl TypeError | Some ob \<Rightarrow>
        (let m2 = toUpperCase (toString16 (unat ob)) @ m1;
             m3 = (if unat ob < 16 then CHR ''0'' # m2 else m2)
         in macLoop i m3 buf1))))"

text \<open>The \<^verbatim>\<open>while (buf.offset != cdr.payload.length)\<close> loop over the OOB values.
  \<open>None\<close> is the run that never returns.\<close>

partial_function (option) oobLoop ::
  "nat \<Rightarrow> string option \<Rightarrow> Buffer \<Rightarrow> (exn + string option) option" where
  "oobLoop payloadLength name buf =
     (if offset buf \<noteq> Num (int payloadLength) then
        (case getOctet buf of Inl e \<Rightarrow> Some (Inl e) | Inr (lenOctet, buf1) \<Rightarrow>
        (case getOctet buf1 of Inl e \<Rightarrow> Some (Inl e) | Inr (ty, buf2) \<Rightarrow>
         if ty = Some 0x08 \<or> ty = Some 0x09 then
           (case getOctetArray buf2 (jsadd (toNumber lenOctet) (Num (- 1))) of
              Inl e \<Rightarrow> Some (Inl e)
            | Inr (n, buf3) \<Rightarrow> oobLoop payloadLength (Some (toUTF8 n)) buf3)
         else
           (case skip buf2 (jsadd (toNumber lenOctet) (Num (- 1))) of
              Inl e \<Rightarrow> Some (Inl e)
            | Inr buf3 \<Rightarrow> oobLoop payloadLength name buf3)))
      else Some (Inr name))"

declare oobLoop.simps [code]

definition parseBluetoothSSP :: "MozNdefRecord \<Rightarrow> (exn + BluetoothSSP) option" where
  "parseBluetoothSSP carrier =
     (case getOctet (newBuffer (payload carrier)) of Inl e \<Rightarrow> Some (Inl e) | Inr (lenLo, buf1) \<Rightarrow>
     (case getOctet buf1 of Inl e \<Rightarrow> Some (Inl e) | Inr (lenHi, buf2) \<Rightarrow>
     (case macLoop 6 [] buf2 of Inl e \<Rightarrow> Some (Inl e) | Inr (m, buf3) \<Rightarrow>
     (case oobLoop (length (payload carrier)) None buf3 of
        None \<Rightarrow> None
      | Some (Inl e) \<Rightarrow> Some (Inl e)
      | Some (Inr name) \<Rightarrow> Some (Inr \<lparr>mac = m, localName = name\<rparr>)))))"

text \<open>\<^verbatim>\<open>mac.split(':')\<close>: the pieces between the colons, always at least one.\<close>

fun split_colon :: "string \<Rightarrow> string list" where
  "split_colon [] = [[]]"
| "split_colon (c # cs) =
     (if c = CHR '':'' then [] # split_colon cs
      else (case split_colon cs of [] \<Rightarrow> [[c]] | g # gs \<Rightarrow> (c # g) # gs))"

text \<open>
  \<^verbatim>\<open>parseInt(s, 16)\<close>: leading white space is dropped (of the 8-bit characters: tab, line
  feed, vertical tab, form feed, carriage return, space and no-break space), then a sign,
  then a \<^verbatim>\<open>0x\<close> or \<^verbatim>\<open>0X\<close> prefix; the longest run of hexadecimal digits that follows is
  the numeral, and there being none gives \<^verbatim>\<open>NaN\<close>. The value is rounded to a double
  (53 bits, ties to even). A numeral beyond the range of doubles gives \<^verbatim>\<open>Infinity\<close>
  in the source and a multiple of a large power of two here; the source only stores the
  result in a \<^verbatim>\<open>Uint8Array\<close>, where both become 0.
\<close>

definition isWhiteSpace :: "char \<Rightarrow> bool" where
  "isWhiteSpace c = ((of_char c :: nat) \<in> {9, 10, 11, 12, 13, 32, 160})"

definition hexValue :: "char \<Rightarrow> nat option" where
  "hexValue c =
     (let k = (of_char c :: nat) in
      if 48 \<le> k \<and> k \<le> 57 then Some (k - 48)
      else if 97 \<le> k \<and> k \<le> 102 then Some (k - 87)
      else if 65 \<le> k \<and> k \<le> 70 then Some (k - 55)
      else None)"

function bitLength :: "int \<Rightarrow> nat" where
  "bitLength n = (if n \<le> 0 then 0 else Suc (bitLength (n div 2)))"
  by pat_completeness auto
termination
  by (relation "measure (\<lambda>n. nat n)") auto

declare bitLength.simps [simp del]

definition roundDouble :: "int \<Rightarrow> int" where
  "roundDouble n =
     (if n < 2 ^ 53 then n
      else let e = bitLength n - 53; q = n div 2 ^ e; r = n mod 2 ^ e
           in (if 2 * r > 2 ^ e \<or> (2 * r = 2 ^ e \<and> odd q) then q + 1 else q) * 2 ^ e)"

fun hexNumeral :: "int \<Rightarrow> string \<Rightarrow> int" where
  "hexNumeral a [] = a"
| "hexNumeral a (c # cs) = hexNumeral (16 * a + int (the (hexValue c))) cs"

definition parseInt16 :: "string \<Rightarrow> jsnum" where
  "parseInt16 s =
     (let s1 = dropWhile isWhiteSpace s;
          sign = (if s1 \<noteq> [] \<and> hd s1 = CHR ''-'' then - 1 else 1 :: int);
          s2 = (if s1 \<noteq> [] \<and> (hd s1 = CHR ''+'' \<or> hd s1 = CHR ''-'') then tl s1 else s1);
          s3 = (if take 2 s2 = ''0x'' \<or> take 2 s2 = ''0X'' then drop 2 s2 else s2);
          z = takeWhile (\<lambda>c. hexValue c \<noteq> None) s3
      in if z = [] then NaN else Num (sign * roundDouble (hexNumeral 0 z)))"

text \<open>Storing a Number in a \<^verbatim>\<open>Uint8Array\<close>: \<^verbatim>\<open>NaN\<close> becomes 0, an integer is taken
  modulo 256.\<close>

fun toUint8 :: "jsnum \<Rightarrow> byte" where
  "toUint8 NaN = 0"
| "toUint8 (Num k) = word_of_int k"

definition bluetoothOobType :: "byte list" where
  "bluetoothOobType =
     [97, 112, 112, 108, 105, 99, 97, 116, 105, 111, 110, 47, 118, 110, 100, 46, 98, 108,
      117, 101, 116, 111, 111, 116, 104, 46, 101, 112, 46, 111, 111, 98]"

text \<open>The payload \<^verbatim>\<open>[8, 0, m[0], ..., m[5]]\<close> of the carrier record, where \<^verbatim>\<open>m\<close> holds
  \<^verbatim>\<open>parseInt(macVals[i], 16)\<close> for \<^verbatim>\<open>i\<close> from 5 down to 0.\<close>

definition oobPayload :: "string list \<Rightarrow> byte list" where
  "oobPayload macVals = [8, 0] @ map (\<lambda>v. toUint8 (parseInt16 v)) (rev macVals)"

text \<open>\<^verbatim>\<open>encodeHandoverRequest(mac, cps, rnd)\<close>; \<open>None\<close> is \<^verbatim>\<open>null\<close>. The Numbers
  \<^verbatim>\<open>cps\<close> and \<^verbatim>\<open>rnd\<close> are integers; \<^verbatim>\<open>rnd & 0xff\<close> and \<^verbatim>\<open>rnd >>> 8\<close> work on 32 bits.\<close>

definition encodeHandoverRequest :: "string \<Rightarrow> int \<Rightarrow> int \<Rightarrow> MozNdefRecord list option" where
  "encodeHandoverRequest macStr cpsVal rnd =
     (let macVals = split_colon macStr in
      if length macVals \<noteq> 6 then None
      else
        let rndLSB = (word_of_int rnd :: 32 word) AND 0xff;
            rndMSB = drop_bit 8 (word_of_int rnd :: 32 word)
        in Some
          [\<lparr>tnf = 1, type_bytes = [72, 114], id_bytes = [],
            payload = [18, 145, 2, 2, 99, 114, ucast rndMSB, ucast rndLSB, 81, 2, 4, 97,
                       99, word_of_int cpsVal, 1, 98, 0]\<rparr>,
           \<lparr>tnf = 2, type_bytes = bluetoothOobType, id_bytes = [98],
            payload = oobPayload macVals\<rparr>])"

definition encodeHandoverSelect :: "string \<Rightarrow> int \<Rightarrow> MozNdefRecord list option" where
  "encodeHandoverSelect macStr cpsVal =
     (let macVals = split_colon macStr in
      if length macVals \<noteq> 6 then None
      else Some
          [\<lparr>tnf = tnf_well_known, type_bytes = rtd_handover_select, id_bytes = [],
            payload = [0x12, 0xD1, 0x02, 0x04, 0x61, 0x63, word_of_int cpsVal, 0x01, 0x30, 0x00]\<rparr>,
           \<lparr>tnf = tnf_mime_media, type_bytes = bluetoothOobType, id_bytes = [0x30],
            payload = oobPayload macVals\<rparr>])"

text \<open>\<^verbatim>\<open>getBluetoothMAC\<close>: only \<^verbatim>\<open>NdefHandoverCodec.parse\<close> catches what it throws;
  \<^verbatim>\<open>parseBluetoothSSP\<close> is called outside any \<^verbatim>\<open>try\<close>. The result \<open>Inr None\<close> is
  \<^verbatim>\<open>null\<close>.\<close>

definition getBluetoothMAC :: "MozNdefRecord list \<Rightarrow> (exn + string option) option" where
  "getBluetoothMAC ndef =
     (case NdefHandoverCodec_parse ndef of
        None \<Rightarrow> None
      | Some None \<Rightarrow> Some (Inr None)
      | Some (Some handover) \<Rightarrow>
          (case searchForBluetoothAC handover of
             None \<Rightarrow> Some (Inr None)
           | Some btsspRecord \<Rightarrow>
               (case parseBluetoothSSP btsspRecord of
                  None \<Rightarrow> None
                | Some (Inl e) \<Rightarrow> Some (Inl e)
                | Some (Inr btssp) \<Rightarrow> Some (Inr (Some (mac btssp))))))"

section \<open>HandoverManager\<close>

text \<open>
  The collaborators (Bluetooth adapter, settings, NFC peer, the window) are not part of the
  source file. Every call the manager makes to one of them is appended to \<open>effects\<close>,
  with the handlers the source stores on the returned request object; what the
  collaborators do later is not modelled. \<open>bluetooth_enabled\<close> is the collaborator's
  property \<^verbatim>\<open>bluetooth.enabled\<close>, which the manager only reads.
\<close>

type_synonym session = nat
type_synonym blob = nat
type_synonym requestId = nat

text \<open>The closures \<^verbatim>\<open>onsuccess\<close> and \<^verbatim>\<open>onerror\<close> of \<^verbatim>\<open>initiateFileTransfer\<close>, which call
  \<^verbatim>\<open>dispatchSendFileStatus(0)\<close> and \<^verbatim>\<open>dispatchSendFileStatus(1)\<close>.\<close>

datatype callback = DispatchSendFileStatus nat

record SendFileRequest =
  session :: session
  blob :: blob
  requestId :: requestId
  onsuccess :: callback
  onerror :: callback

text \<open>The handlers the source assigns to a request object: those of \<^verbatim>\<open>doPairing\<close>
  (\<^verbatim>\<open>undefined\<close> when \<^verbatim>\<open>doPairing(mac)\<close> is called with one argument), and those
  of the two \<^verbatim>\<open>sendNDEF\<close> requests.\<close>

datatype handler =
    Undefined
  | PairingSucceeded
  | PairingFailed
  | SendBlob
  | FailSendFile
  | HsSent string
  | HsFailed
  | HrSent
  | HrFailed

datatype effect =
    SettingsSetBluetoothEnabled
  | GetNFCPeer session
  | SendNDEF "MozNdefRecord list option" handler handler
  | AdapterPair string handler handler
  | AdapterUnpair string
  | SendFileStatusEvent nat requestId session

text \<open>An entry \<^verbatim>\<open>{callback: f, args: [...]}\<close> of the action queue, for each of the four
  functions the source queues.\<close>

datatype action =
    DoFileTransfer string
  | DoPairing string handler handler
  | DoHandoverRequest "MozNdefRecord list" session
  | InitiateFileTransfer session blob requestId

record BluetoothAdapter =
  address :: string

text \<open>\<open>mathRandom\<close> and \<open>randomCalls\<close> stand for \<^verbatim>\<open>Math.floor(Math.random() * 0xffff)\<close>:
  the \<open>n\<close>-th call returns \<open>mathRandom n\<close>.\<close>

record HandoverManager =
  bluetooth_enabled :: bool
  defaultAdapter :: "BluetoothAdapter option"
  actionQueue :: "action list"
  sendFileRequest :: "SendFileRequest option"
  remoteMAC :: "string option"
  settingsNotified :: bool
  effects :: "effect list"
  mathRandom :: "nat \<Rightarrow> int"
  randomCalls :: nat

text \<open>How a call ends: it returns, or an exception leaves it. The state is the one
  reached at that point.\<close>

datatype completion = Returns | Throws exn

definition doPairing ::
  "string \<Rightarrow> handler \<Rightarrow> handler \<Rightarrow> HandoverManager \<Rightarrow> completion \<times> HandoverManager" where
  "doPairing m onsucc onerr s =
     (if defaultAdapter s = None then (Returns, s)
      else (Returns, s\<lparr>effects := effects s @ [AdapterPair m onsucc onerr]\<rparr>))"

definition doFileTransfer :: "string \<Rightarrow> HandoverManager \<Rightarrow> completion \<times> HandoverManager" where
  "doFileTransfer m s =
     (if sendFileRequest s = None then (Returns, s)
      else doPairing m SendBlob FailSendFile (s\<lparr>remoteMAC := Some m\<rparr>))"

definition doHandoverRequest ::
  "MozNdefRecord list \<Rightarrow> session \<Rightarrow> HandoverManager \<Rightarrow> (completion \<times> HandoverManager) option" where
  "doHandoverRequest ndef sess s =
     (case getBluetoothMAC ndef of
        None \<Rightarrow> None
      | Some (Inl e) \<Rightarrow> Some (Throws e, s)
      | Some (Inr None) \<Rightarrow> Some (Returns, s)
      | Some (Inr (Some m)) \<Rightarrow>
          (let s1 = s\<lparr>remoteMAC := Some m\<rparr>;
               s2 = s1\<lparr>effects := effects s1 @ [GetNFCPeer sess]\<rparr>;
               carrierPowerState = (if bluetooth_enabled s2 then 1 else 2)
           in case defaultAdapter s2 of
                None \<Rightarrow> Some (Throws TypeError, s2)
              | Some adapter \<Rightarrow>
                  Some (Returns,
                    s2\<lparr>effects := effects s2 @
                       [SendNDEF (encodeHandoverSelect (address adapter) carrierPowerState)
                          (HsSent m) HsFailed]\<rparr>)))"

definition initiateFileTransfer ::
  "session \<Rightarrow> blob \<Rightarrow> requestId \<Rightarrow> HandoverManager \<Rightarrow> completion \<times> HandoverManager" where
  "initiateFileTransfer sess bl rid s =
     (let s1 = s\<lparr>sendFileRequest :=
                   Some \<lparr>session = sess, blob = bl, requestId = rid,
                         onsuccess = DispatchSendFileStatus 0,
                         onerror = DispatchSendFileStatus 1\<rparr>\<rparr>;
          s2 = s1\<lparr>effects := effects s1 @ [GetNFCPeer sess]\<rparr>;
          carrierPowerState = (if bluetooth_enabled s2 then 1 else 2);
          rnd = mathRandom s2 (randomCalls s2);
          s3 = s2\<lparr>randomCalls := Suc (randomCalls s2)\<rparr>
      in case defaultAdapter s3 of
           None \<Rightarrow> (Throws TypeError, s3)
         | Some adapter \<Rightarrow>
             (Returns,
              s3\<lparr>effects := effects s3 @
                 [SendNDEF (encodeHandoverRequest (address adapter) carrierPowerState rnd)
                    HrSent HrFailed]\<rparr>))"

text \<open>\<^verbatim>\<open>action.callback.apply(null, action.args)\<close>.\<close>

fun runAction :: "action \<Rightarrow> HandoverManager \<Rightarrow> (completion \<times> HandoverManager) option" where
  "runAction (DoFileTransfer m) s = Some (doFileTransfer m s)"
| "runAction (DoPairing m onsucc onerr) s = Some (doPairing m onsucc onerr s)"
| "runAction (DoHandoverRequest ndef sess) s = doHandoverRequest ndef sess s"
| "runAction (InitiateFileTransfer sess bl rid) s = Some (initiateFileTransfer sess bl rid s)"

definition doAction :: "action \<Rightarrow> HandoverManager \<Rightarrow> (completion \<times> HandoverManager) option" where
  "doAction a s =
     (if \<not> bluetooth_enabled s then
        (let s1 = s\<lparr>actionQueue := actionQueue s @ [a]\<rparr> in
         if settingsNotified s1 = False
         then Some (Returns, s1\<lparr>effects := effects s1 @ [SettingsSetBluetoothEnabled],
                                 settingsNotified := True\<rparr>)
         else Some (Returns, s1))
      else runAction a s)"

text \<open>The \<^verbatim>\<open>for\<close> loop of the \<^verbatim>\<open>adapteradded\<close> listener, which reads
  \<^verbatim>\<open>self.actionQueue\<close> anew at each index, and the assignment of a new array after
  it. An exception leaves the loop, and the queue as it is.\<close>

partial_function (option) drainQueue ::
  "nat \<Rightarrow> HandoverManager \<Rightarrow> (completion \<times> HandoverManager) option" where
  "drainQueue i s =
     (if i < length (actionQueue s) then
        (case runAction (actionQueue s ! i) s of
           None \<Rightarrow> None
         | Some (Throws e, s1) \<Rightarrow> Some (Throws e, s1)
         | Some (Returns, s1) \<Rightarrow> drainQueue (Suc i) s1)
      else Some (Returns, s\<lparr>actionQueue := []\<rparr>))"

declare drainQueue.simps [code]

text \<open>\<^verbatim>\<open>bt_getAdapterSuccess\<close>, the handler of the \<^verbatim>\<open>adapteradded\<close> event once
  \<^verbatim>\<open>getDefaultAdapter\<close> has succeeded with \<^verbatim>\<open>req.result = adapter\<close>.\<close>

definition bt_getAdapterSuccess ::
  "BluetoothAdapter \<Rightarrow> HandoverManager \<Rightarrow> (completion \<times> HandoverManager) option" where
  "bt_getAdapterSuccess adapter s =
     drainQueue 0 (s\<lparr>settingsNotified := False, defaultAdapter := Some adapter\<rparr>)"

definition handleHandoverSelect ::
  "MozNdefRecord list \<Rightarrow> HandoverManager \<Rightarrow> (completion \<times> HandoverManager) option" where
  "handleHandoverSelect ndef s =
     (case getBluetoothMAC ndef of
        None \<Rightarrow> None
      | Some (Inl e) \<Rightarrow> Some (Throws e, s)
      | Some (Inr None) \<Rightarrow> Some (Returns, s)
      | Some (Inr (Some m)) \<Rightarrow>
          if sendFileRequest s \<noteq> None then doAction (DoFileTransfer m) s
          else doAction (DoPairing m PairingSucceeded PairingFailed) s)"

definition handleHandoverRequest ::
  "MozNdefRecord list \<Rightarrow> session \<Rightarrow> HandoverManager \<Rightarrow> (completion \<times> HandoverManager) option" where
  "handleHandoverRequest ndef sess s = doAction (DoHandoverRequest ndef sess) s"

definition handleFileTransfer ::
  "session \<Rightarrow> blob \<Rightarrow> requestId \<Rightarrow> HandoverManager \<Rightarrow> (completion \<times> HandoverManager) option" where
  "handleFileTransfer sess bl rid s = doAction (InitiateFileTransfer sess bl rid) s"

definition isHandoverInProgress :: "HandoverManager \<Rightarrow> bool" where
  "isHandoverInProgress s = (remoteMAC s \<noteq> None)"

text \<open>\<^verbatim>\<open>dispatchSendFileStatus(status)\<close> reads \<^verbatim>\<open>self.sendFileRequest.requestId\<close>.\<close>

definition dispatchSendFileStatus :: "nat \<Rightarrow> HandoverManager \<Rightarrow> completion \<times> HandoverManager" where
  "dispatchSendFileStatus status s =
     (case sendFileRequest s of
        None \<Rightarrow> (Throws TypeError, s)
      | Some req \<Rightarrow>
          (Returns, s\<lparr>effects := effects s @ [SendFileStatusEvent status (requestId req) (session req)]\<rparr>))"

fun invoke :: "callback \<Rightarrow> HandoverManager \<Rightarrow> completion \<times> HandoverManager" where
  "invoke (DispatchSendFileStatus status) s = dispatchSendFileStatus status s"

text \<open>
  \<^verbatim>\<open>transferComplete(succeeded)\<close>. In the branch for a failed transfer the source reads
  \<^verbatim>\<open>this.sendFIleRequest\<close> (capital I), a property that is never assigned: it is
  \<^verbatim>\<open>undefined\<close>, and reading \<^verbatim>\<open>onerror\<close> of it is a \<^verbatim>\<open>TypeError\<close>.
\<close>

definition transferComplete :: "bool \<Rightarrow> HandoverManager \<Rightarrow> completion \<times> HandoverManager" where
  "transferComplete succeeded s =
     (let s1 = (case (defaultAdapter s, remoteMAC s) of
                  (Some adapter, Some m) \<Rightarrow>
                    s\<lparr>effects := effects s @ [AdapterUnpair m], remoteMAC := None\<rparr>
                | _ \<Rightarrow> s)
      in case sendFileRequest s1 of
           None \<Rightarrow> (Returns, s1)
         | Some req \<Rightarrow>
             if succeeded = True then
               (case invoke (onsuccess req) s1 of
                  (Throws e, s2) \<Rightarrow> (Throws e, s2)
                | (Returns, s2) \<Rightarrow> (Returns, s2\<lparr>sendFileRequest := None\<rparr>))
             else (Throws TypeError, s1))"

section \<open>Notions used to state the properties\<close>

text \<open>An octet written as two upper-case hexadecimal digits, the high digit first.\<close>

definition upperHexDigit :: "nat \<Rightarrow> char" where
  "upperHexDigit d = ''0123456789ABCDEF'' ! d"

definition hexPair :: "byte \<Rightarrow> string" where
  "hexPair b = [upperHexDigit (unat b div 16), upperHexDigit (unat b mod 16)]"

text \<open>A group of an address string: exactly two upper-case hexadecimal digits.\<close>

definition isUpperHexDigit :: "char \<Rightarrow> bool" where
  "isUpperHexDigit c = (c \<in> set ''0123456789ABCDEF'')"

definition isUpperHexPair :: "string \<Rightarrow> bool" where
  "isUpperHexPair g = (length g = 2 \<and> list_all isUpperHexDigit g)"

text \<open>The state the constructor \<^verbatim>\<open>HandoverManager()\<close> sets up, for a given value of
  \<^verbatim>\<open>bluetooth.enabled\<close>.\<close>

definition initialManager :: "bool \<Rightarrow> HandoverManager" where
  "initialManager enabled =
     \<lparr>bluetooth_enabled = enabled, defaultAdapter = None, actionQueue = [],
      sendFileRequest = None, remoteMAC = None, settingsNotified = False, effects = [],
      mathRandom = (\<lambda>n. 0), randomCalls = 0\<rparr>"

text \<open>Incoming messages used as examples: the Handover Select and the Handover Request
  that the encoders build (power state 1, collision value 7), with a carrier record of
  type \<open>ty\<close> and payload \<open>oob\<close>.\<close>

definition selectMessage :: "byte list \<Rightarrow> byte list \<Rightarrow> MozNdefRecord list" where
  "selectMessage ty oob =
     [\<lparr>tnf = 1, type_bytes = [72, 115], id_bytes = [],
       payload = [0x12, 0xD1, 0x02, 0x04, 0x61, 0x63, 1, 0x01, 0x30, 0x00]\<rparr>,
      \<lparr>tnf = 2, type_bytes = ty, id_bytes = [0x30], payload = oob\<rparr>]"

definition requestMessage :: "byte list \<Rightarrow> byte list \<Rightarrow> MozNdefRecord list" where
  "requestMessage ty oob =
     [\<lparr>tnf = 1, type_bytes = [72, 114], id_bytes = [],
       payload = [18, 145, 2, 2, 99, 114, 0, 7, 81, 2, 4, 97, 99, 1, 1, 98, 0]\<rparr>,
      \<lparr>tnf = 2, type_bytes = ty, id_bytes = [98], payload = oob\<rparr>]"

text \<open>A manager with an adapter, a pending outgoing transfer and a remote address.\<close>

definition pendingTransfer :: HandoverManager where
  "pendingTransfer =
     (initialManager True)
       \<lparr>defaultAdapter := Some \<lparr>address = ''11:22:33:44:55:66''\<rparr>,
        sendFileRequest := Some \<lparr>session = 1, blob = 2, requestId = 3,
                                  onsuccess = DispatchSendFileStatus 0,
                                  onerror = DispatchSendFileStatus 1\<rparr>,
        remoteMAC := Some ''AA:BB:CC:DD:EE:FF''\<rparr>"

text \<open>Managers of a run in which two messages arrive while Bluetooth is off: a Handover
  Request whose carrier payload is cut short, then a well-formed Handover Select.\<close>

definition oneQueued :: HandoverManager where
  "oneQueued =
     (initialManager False)
       \<lparr>actionQueue := [DoHandoverRequest (requestMessage bluetoothOobType [8, 0, 1, 2, 3]) 5],
        effects := [SettingsSetBluetoothEnabled], settingsNotified := True\<rparr>"

definition twoQueued :: HandoverManager where
  "twoQueued =
     oneQueued
       \<lparr>actionQueue := [DoHandoverRequest (requestMessage bluetoothOobType [8, 0, 1, 2, 3]) 5,
                        DoPairing ''06:05:04:03:02:01'' PairingSucceeded PairingFailed]\<rparr>"

definition stuckQueue :: HandoverManager where
  "stuckQueue =
     twoQueued\<lparr>bluetooth_enabled := True, settingsNotified := False,
                defaultAdapter := Some \<lparr>address = ''11:22:33:44:55:66''\<rparr>\<rparr>"

text \<open>A reader placed after the address of a carrier payload, at an OOB element of
  length octet 0 and type octet 1.\<close>

definition zeroLengthElement :: Buffer where
  "zeroLengthElement = \<lparr>uint8array = [8, 0, 1, 2, 3, 4, 5, 6, 0, 1, 7], offset = Num 8\<rparr>"

text \<open>The same, with the element as the last two octets of the payload.\<close>

definition zeroLengthLast :: Buffer where
  "zeroLengthLast = \<lparr>uint8array = [8, 0, 1, 2, 3, 4, 5, 6, 0, 1], offset = Num 8\<rparr>"

text \<open>A Handover Select whose embedded NDEF message is one short record with the header
  octet \<open>hdr\<close> and the two-octet type \<open>ty\<close>.\<close>

definition selectWithNested :: "byte \<Rightarrow> byte list \<Rightarrow> MozNdefRecord list" where
  "selectWithNested hdr ty =
     [\<lparr>tnf = 1, type_bytes = [72, 115], id_bytes = [],
       payload = [0x12, hdr, 2, 4] @ ty @ [1, 1, 0x30, 0]\<rparr>,
      \<lparr>tnf = 2, type_bytes = bluetoothOobType, id_bytes = [0x30],
       payload = [8, 0, 1, 2, 3, 4, 5, 6]\<rparr>]"

text \<open>
  The violations of the header flags, in the order in which \<^verbatim>\<open>NdefCodec.doParse\<close> is said
  to check them: the first record without the MB flag, a later record with it, a record
  with the CF flag.
\<close>

definition headerViolation :: "bool \<Rightarrow> byte option \<Rightarrow> exn option" where
  "headerViolation isFirst octet =
     (if isFirst \<and> \<not> flagSet octet MB then Some MBNotSetInFirst
      else if \<not> isFirst \<and> flagSet octet MB then Some MBOnlyFirst
      else if flagSet octet CF then Some ChunkedRecord
      else None)"

text \<open>The header octet of record number \<open>n\<close> of a buffer (counted from 0), when the
  records before it can be read and none of them carries the ME flag.\<close>

fun headerAt :: "nat \<Rightarrow> Buffer \<Rightarrow> byte option option" where
  "headerAt 0 b = (case getOctet b of Inl e \<Rightarrow> None | Inr (octet, b1) \<Rightarrow> Some octet)"
| "headerAt (Suc n) b =
     (case getOctet b of
        Inl e \<Rightarrow> None
      | Inr (octet, b1) \<Rightarrow>
          if flagSet octet ME then None
          else (case parseNdefRecord b1 octet of
                  Inl e \<Rightarrow> None
                | Inr (r, b2) \<Rightarrow> headerAt n b2))"

text \<open>The first record whose header violates the flags does so with the error \<open>e\<close>.\<close>

definition firstHeaderViolation :: "Buffer \<Rightarrow> exn \<Rightarrow> bool" where
  "firstHeaderViolation b e =
     (\<exists>n octet. headerAt n b = Some octet \<and> headerViolation (n = 0) octet = Some e \<and>
        (\<forall>m<n. \<forall>o'. headerAt m b = Some o' \<longrightarrow> headerViolation (m = 0) o' = None))"

text \<open>Running a list of actions one after the other, up to the first that throws.\<close>

fun runInOrder :: "action list \<Rightarrow> HandoverManager \<Rightarrow> (completion \<times> HandoverManager) option" where
  "runInOrder [] s = Some (Returns, s)"
| "runInOrder (a # rest) s =
     (case runAction a s of
        None \<Rightarrow> None
      | Some (Throws e, s1) \<Rightarrow> Some (Throws e, s1)
      | Some (Returns, s1) \<Rightarrow> runInOrder rest s1)"

text \<open>A Handover Select whose embedded NDEF message is an empty short record followed by a
  record with the four length octets FF FF FF FA, that is the payload length -6; and the
  reader at the header of that second record.\<close>

definition loopingSelect :: "MozNdefRecord list" where
  "loopingSelect =
     [\<lparr>tnf = 1, type_bytes = [72, 115], id_bytes = [],
       payload = [0x12, 0x90, 0, 0, 0x00, 0, 0xFF, 0xFF, 0xFF, 0xFA]\<rparr>]"

definition cycleBuffer :: Buffer where
  "cycleBuffer =
     \<lparr>uint8array = [0x12, 0x90, 0, 0, 0x00, 0, 0xFF, 0xFF, 0xFF, 0xFA], offset = Num 4\<rparr>"

section \<open>Properties of the codecs\<close>

lemma equalArrays_eq: "equalArrays a1 a2 = (a1 = a2)"
  by (induction a1 a2 rule: equalArrays.induct) auto

subsection \<open>Rendering and reading address octets\<close>

lemma below_16_cases:
  "d < 16 \<Longrightarrow> d \<in> {0, 1, 2, 3, 4, 5, 6, 7, 8, 9, 10, 11, 12, 13, 14, 15::nat}"
  by simp arith

lemma upper_letters:
  "char_of (65::nat) = CHR ''A''" "char_of (66::nat) = CHR ''B''" "char_of (67::nat) = CHR ''C''"
  "char_of (68::nat) = CHR ''D''" "char_of (69::nat) = CHR ''E''" "char_of (70::nat) = CHR ''F''"
  by code_simp+

lemma toUpperCase_hexDigit: "d < 16 \<Longrightarrow> toUpperCase [hexDigit d] = [upperHexDigit d]"
  by (drule below_16_cases)
     (auto simp: toUpperCase_def hexDigit_def upperHexDigit_def upper_letters)

lemma toString16_digit: "n < 16 \<Longrightarrow> toString16 n = [hexDigit n]"
  by (simp add: toString16.simps)

lemma toString16_two:
  "16 \<le> n \<Longrightarrow> n < 256 \<Longrightarrow> toString16 n = [hexDigit (n div 16), hexDigit (n mod 16)]"
  by (subst toString16.simps) (simp add: toString16_digit)

lemma toUpperCase_two: "toUpperCase [x, y] = toUpperCase [x] @ toUpperCase [y]"
  by (simp add: toUpperCase_def)

lemma render_octet:
  "(if unat ob < 16 then CHR ''0'' # toUpperCase (toString16 (unat ob)) @ m
    else toUpperCase (toString16 (unat ob)) @ m) = hexPair ob @ m"
proof (cases "unat ob < 16")
  case True
  then show ?thesis
    by (simp add: toString16_digit toUpperCase_hexDigit hexPair_def upperHexDigit_def)
next
  case False
  have small: "unat ob < 256"
    using unsigned_less [of ob, where ?'a = nat] by simp
  with False have "toString16 (unat ob) = [hexDigit (unat ob div 16), hexDigit (unat ob mod 16)]"
    by (simp add: toString16_two)
  moreover have "unat ob div 16 < 16"
    using small by simp
  ultimately show ?thesis
    using False
    by (simp add: hexPair_def toUpperCase_two toUpperCase_hexDigit)
qed

lemma macLoop_Suc:
  "getOctet buf = Inr (Some ob, buf1) \<Longrightarrow>
   macLoop (Suc i) m buf = macLoop i (hexPair ob @ (if m = [] then [] else CHR '':'' # m)) buf1"
proof -
  assume g: "getOctet buf = Inr (Some ob, buf1)"
  let ?m1 = "if m = [] then [] else CHR '':'' # m"
  have "macLoop (Suc i) m buf =
        macLoop i (if unat ob < 16 then CHR ''0'' # toUpperCase (toString16 (unat ob)) @ ?m1
                   else toUpperCase (toString16 (unat ob)) @ ?m1) buf1"
    using g by (simp add: Let_def)
  then show ?thesis by (simp only: render_octet)
qed

lemma macLoop6: "macLoop 6 m buf = macLoop (Suc (Suc (Suc (Suc (Suc (Suc 0)))))) m buf"
  by (simp add: eval_nat_numeral)

text \<open>A carrier payload of exactly eight octets: the two length octets are not looked at,
  and the six address octets are rendered from the last to the first.\<close>

lemma parseBluetoothSSP_eight:
  "parseBluetoothSSP \<lparr>tnf = t, type_bytes = ty, id_bytes = i,
                      payload = [l0, l1, m0, m1, m2, m3, m4, m5]\<rparr> =
   Some (Inr \<lparr>mac = hexPair m5 @ '':'' @ hexPair m4 @ '':'' @ hexPair m3 @ '':'' @
                    hexPair m2 @ '':'' @ hexPair m1 @ '':'' @ hexPair m0,
              localName = None\<rparr>)"
  by (simp add: parseBluetoothSSP_def newBuffer_def getOctet_def oobLoop.simps macLoop6
        macLoop_Suc hexPair_def del: macLoop.simps(2))

subsection \<open>Encoding an address\<close>

text \<open>
  C6 (as amended). \<^verbatim>\<open>encodeHandoverRequest\<close> and \<^verbatim>\<open>encodeHandoverSelect\<close> return
  \<^verbatim>\<open>null\<close> exactly when splitting the address at its colons does not give six groups.
  The groups are not checked to be hexadecimal octets, so an address of six groups is
  always encoded.
\<close>

theorem encode_null_iff_not_six_groups:
  "(encodeHandoverRequest macStr cpsVal rnd = None) = (length (split_colon macStr) \<noteq> 6) \<and>
   (encodeHandoverSelect macStr cpsVal = None) = (length (split_colon macStr) \<noteq> 6)"
  by (simp add: encodeHandoverRequest_def encodeHandoverSelect_def Let_def)

text \<open>
  C6 (as stated) fails: the address \<^verbatim>\<open>"ZZ:ZZ:ZZ:ZZ:ZZ:ZZ"\<close>, six groups none of which is a
  hexadecimal numeral, is encoded by both encoders (\<^verbatim>\<open>parseInt\<close> gives \<^verbatim>\<open>NaN\<close> for each
  of these groups, stored as the octet 0).
\<close>

theorem encode_non_hex_groups_counterexample:
  "encodeHandoverRequest ''ZZ:ZZ:ZZ:ZZ:ZZ:ZZ'' 1 0 =
     Some [\<lparr>tnf = 1, type_bytes = [72, 114], id_bytes = [],
            payload = [18, 145, 2, 2, 99, 114, 0, 0, 81, 2, 4, 97, 99, 1, 1, 98, 0]\<rparr>,
           \<lparr>tnf = 2, type_bytes = bluetoothOobType, id_bytes = [98],
            payload = [8, 0, 0, 0, 0, 0, 0, 0]\<rparr>] \<and>
   encodeHandoverSelect ''ZZ:ZZ:ZZ:ZZ:ZZ:ZZ'' 1 =
     Some [\<lparr>tnf = 1, type_bytes = [72, 115], id_bytes = [],
            payload = [18, 209, 2, 4, 97, 99, 1, 1, 48, 0]\<rparr>,
           \<lparr>tnf = 2, type_bytes = bluetoothOobType, id_bytes = [48],
            payload = [8, 0, 0, 0, 0, 0, 0, 0]\<rparr>]"
  by (simp add: encodeHandoverRequest_def encodeHandoverSelect_def oobPayload_def
        parseInt16_def isWhiteSpace_def hexValue_def Let_def tnf_well_known_def
        tnf_mime_media_def rtd_handover_select_def fromUTF8_def)

text \<open>
  C4. The address \<^verbatim>\<open>"AA:BB:CC:DD:EE:FF"\<close> is encoded, by both encoders and for every
  power state and collision value, into the carrier payload 8, 0 (the length, low octet
  first) followed by FF, EE, DD, CC, BB, AA. A carrier payload of the two length octets
  and these six octets is decoded to \<^verbatim>\<open>"AA:BB:CC:DD:EE:FF"\<close>; in general the six octets
  are rendered as pairs of upper-case hexadecimal digits joined by colons, the octet
  transmitted last first.
\<close>

theorem address_byte_order:
  "map payload (the (encodeHandoverRequest ''AA:BB:CC:DD:EE:FF'' cpsVal rnd)) ! 1 =
     [8, 0, 0xFF, 0xEE, 0xDD, 0xCC, 0xBB, 0xAA] \<and>
   map payload (the (encodeHandoverSelect ''AA:BB:CC:DD:EE:FF'' cpsVal)) ! 1 =
     [8, 0, 0xFF, 0xEE, 0xDD, 0xCC, 0xBB, 0xAA] \<and>
   parseBluetoothSSP \<lparr>tnf = t, type_bytes = ty, id_bytes = i,
                      payload = [l0, l1, 0xFF, 0xEE, 0xDD, 0xCC, 0xBB, 0xAA]\<rparr> =
     Some (Inr \<lparr>mac = ''AA:BB:CC:DD:EE:FF'', localName = None\<rparr>) \<and>
   parseBluetoothSSP \<lparr>tnf = t, type_bytes = ty, id_bytes = i,
                      payload = [l0, l1, m0, m1, m2, m3, m4, m5]\<rparr> =
     Some (Inr \<lparr>mac = hexPair m5 @ '':'' @ hexPair m4 @ '':'' @ hexPair m3 @ '':'' @
                      hexPair m2 @ '':'' @ hexPair m1 @ '':'' @ hexPair m0,
                localName = None\<rparr>)"
proof -
  have enc: "oobPayload (split_colon ''AA:BB:CC:DD:EE:FF'') =
             [8, 0, 0xFF, 0xEE, 0xDD, 0xCC, 0xBB, 0xAA]"
    by (simp add: oobPayload_def parseInt16_def isWhiteSpace_def hexValue_def
          roundDouble_def Let_def)
  have len: "length (split_colon ''AA:BB:CC:DD:EE:FF'') = 6"
    by simp
  have req: "map payload (the (encodeHandoverRequest ''AA:BB:CC:DD:EE:FF'' cpsVal rnd)) ! 1 =
             [8, 0, 0xFF, 0xEE, 0xDD, 0xCC, 0xBB, 0xAA]"
    unfolding encodeHandoverRequest_def Let_def using enc len by simp
  have sel: "map payload (the (encodeHandoverSelect ''AA:BB:CC:DD:EE:FF'' cpsVal)) ! 1 =
             [8, 0, 0xFF, 0xEE, 0xDD, 0xCC, 0xBB, 0xAA]"
    unfolding encodeHandoverSelect_def Let_def using enc len by simp
  have dec: "parseBluetoothSSP \<lparr>tnf = t, type_bytes = ty, id_bytes = i,
                      payload = [l0, l1, 0xFF, 0xEE, 0xDD, 0xCC, 0xBB, 0xAA]\<rparr> =
     Some (Inr \<lparr>mac = ''AA:BB:CC:DD:EE:FF'', localName = None\<rparr>)"
    by (simp add: parseBluetoothSSP_eight hexPair_def upperHexDigit_def)
  from req sel dec show ?thesis
    by (simp only: parseBluetoothSSP_eight simp_thms)
qed

subsection \<open>Evaluating the parsers on messages\<close>

lemmas eval_defs = NdefHandoverCodec_parse_def NdefHandoverCodec_doParse_def doParseEmbedded_def
  parseAcRecords_def parseAC_def NdefCodec_parse_def NdefCodec_doParse_def doParseLoop.simps
  newBuffer_def getOctet_def getOctetArray_def subarray_def clampIndex_def parseNdefRecord_def
  flagSet_def MB_def ME_def CF_def SR_def IL_def TNF_def tnf_well_known_def tnf_mime_media_def
  rtd_handover_select_def rtd_handover_request_def rtd_collision_resolution_def
  rtd_alternative_carrier_def fromUTF8_def

lemma parse_selectMessage:
  "NdefHandoverCodec_parse (selectMessage ty oob) =
   Some (Some \<lparr>majorVersion = 1, minorVersion = 2,
      ac = [\<lparr>cps = 1, cdr = \<lparr>tnf = 2, type_bytes = ty, id_bytes = [0x30], payload = oob\<rparr>\<rparr>],
      htype = ''Hs'', cr = None\<rparr>)"
  by (simp add: selectMessage_def eval_defs)

lemma parse_requestMessage:
  "NdefHandoverCodec_parse (requestMessage ty oob) =
   Some (Some \<lparr>majorVersion = 1, minorVersion = 2,
      ac = [\<lparr>cps = 1, cdr = \<lparr>tnf = 2, type_bytes = ty, id_bytes = [98], payload = oob\<rparr>\<rparr>],
      htype = ''Hr'', cr = Some 7\<rparr>)"
  by (simp add: requestMessage_def eval_defs)

lemma toUTF8_bluetoothOobType:
  "toUTF8 bluetoothOobType = ''application/vnd.bluetooth.ep.oob''"
  by code_simp

lemma search_single_bluetooth:
  "searchForBluetoothAC \<lparr>majorVersion = a, minorVersion = b,
      ac = [\<lparr>cps = c, cdr = \<lparr>tnf = 2, type_bytes = bluetoothOobType, id_bytes = i,
                             payload = oob\<rparr>\<rparr>],
      htype = h, cr = r\<rparr> =
   Some \<lparr>tnf = 2, type_bytes = bluetoothOobType, id_bytes = i, payload = oob\<rparr>"
  by (simp add: searchForBluetoothAC_def tnf_mime_media_def toUTF8_bluetoothOobType)

lemma macLoop_throw: "getOctet buf = Inl e \<Longrightarrow> macLoop (Suc i) m buf = Inl e"
  by (simp add: Let_def)

lemma parseBluetoothSSP_truncated:
  "parseBluetoothSSP \<lparr>tnf = 2, type_bytes = ty, id_bytes = i, payload = [8, 0, 1, 2, 3]\<rparr> =
   Some (Inl BufferTooSmall)"
  by (simp add: parseBluetoothSSP_def newBuffer_def getOctet_def macLoop6 macLoop_Suc
        macLoop_throw hexPair_def del: macLoop.simps(2))

lemma getBluetoothMAC_truncated_select:
  "getBluetoothMAC (selectMessage bluetoothOobType [8, 0, 1, 2, 3]) = Some (Inl BufferTooSmall)"
  by (simp add: getBluetoothMAC_def parse_selectMessage search_single_bluetooth
        parseBluetoothSSP_truncated)

lemma getBluetoothMAC_truncated_request:
  "getBluetoothMAC (requestMessage bluetoothOobType [8, 0, 1, 2, 3]) = Some (Inl BufferTooSmall)"
  by (simp add: getBluetoothMAC_def parse_requestMessage search_single_bluetooth
        parseBluetoothSSP_truncated)

section \<open>Properties of the manager\<close>

text \<open>
  C1 fails on the code. A Handover Select (or Request) whose Bluetooth carrier payload is
  cut after five octets is parsed by \<^verbatim>\<open>NdefHandoverCodec.parse\<close> without error, and the
  \<^verbatim>\<open>'Buffer too small'\<close> exception of \<^verbatim>\<open>parseBluetoothSSP\<close>, which
  \<^verbatim>\<open>getBluetoothMAC\<close> calls outside any \<^verbatim>\<open>try\<close>, leaves \<^verbatim>\<open>handleHandoverSelect\<close> and
  \<^verbatim>\<open>handleHandoverRequest\<close>.
\<close>

theorem truncated_carrier_throws:
  "NdefHandoverCodec_parse (selectMessage bluetoothOobType [8, 0, 1, 2, 3]) \<noteq> Some None \<and>
   handleHandoverSelect (selectMessage bluetoothOobType [8, 0, 1, 2, 3]) s =
     Some (Throws BufferTooSmall, s) \<and>
   handleHandoverRequest (requestMessage bluetoothOobType [8, 0, 1, 2, 3]) sess
       (initialManager True) =
     Some (Throws BufferTooSmall, initialManager True)"
  by (simp add: handleHandoverSelect_def handleHandoverRequest_def doAction_def
        doHandoverRequest_def getBluetoothMAC_truncated_select
        getBluetoothMAC_truncated_request parse_selectMessage initialManager_def)

text \<open>
  C2 fails on the code when the transfer failed: \<^verbatim>\<open>transferComplete(false)\<close> on a manager
  with a pending transfer unpairs and clears the remote address, then throws a
  \<^verbatim>\<open>TypeError\<close>; the failure callback is not invoked (no status event is dispatched)
  and the pending transfer is not cleared.
\<close>

theorem transferComplete_false_throws:
  "transferComplete False pendingTransfer =
     (Throws TypeError,
      pendingTransfer\<lparr>effects := [AdapterUnpair ''AA:BB:CC:DD:EE:FF''], remoteMAC := None\<rparr>)"
  by (simp add: transferComplete_def pendingTransfer_def initialManager_def)

text \<open>The other half of C2 holds: a successful transfer invokes the success callback
  once and clears both fields, and a second call does nothing.\<close>

lemma transferComplete_true:
  "transferComplete True pendingTransfer =
     (Returns,
      pendingTransfer\<lparr>effects := [AdapterUnpair ''AA:BB:CC:DD:EE:FF'', SendFileStatusEvent 0 3 1],
                      remoteMAC := None, sendFileRequest := None\<rparr>)"
  by (simp add: transferComplete_def pendingTransfer_def initialManager_def
        dispatchSendFileStatus_def)

lemma transferComplete_idle:
  "sendFileRequest s = None \<Longrightarrow> remoteMAC s = None \<Longrightarrow> transferComplete b s = (Returns, s)"
  by (simp add: transferComplete_def split: option.splits)

lemma getBluetoothMAC_good_select:
  "getBluetoothMAC (selectMessage bluetoothOobType [8, 0, 1, 2, 3, 4, 5, 6]) =
   Some (Inr (Some ''06:05:04:03:02:01''))"
  by (simp add: getBluetoothMAC_def parse_selectMessage search_single_bluetooth
        parseBluetoothSSP_eight hexPair_def upperHexDigit_def)

text \<open>
  C7 fails on the code. With Bluetooth off, a Handover Request whose carrier payload is cut
  short and then a Handover Select are queued, and the settings are asked once to turn
  Bluetooth on. When the adapter is ready, the first queued action throws
  (\<^verbatim>\<open>parseBluetoothSSP\<close> outside any \<^verbatim>\<open>try\<close>, as for C1): the loop is left, the
  pairing action behind it is not run, and the queue is not cleared. The next
  notification ends in the same way.
\<close>

theorem throwing_action_blocks_queue:
  "handleHandoverRequest (requestMessage bluetoothOobType [8, 0, 1, 2, 3]) 5 (initialManager False) =
     Some (Returns, oneQueued) \<and>
   handleHandoverSelect (selectMessage bluetoothOobType [8, 0, 1, 2, 3, 4, 5, 6]) oneQueued =
     Some (Returns, twoQueued) \<and>
   bt_getAdapterSuccess \<lparr>address = ''11:22:33:44:55:66''\<rparr> (twoQueued\<lparr>bluetooth_enabled := True\<rparr>) =
     Some (Throws BufferTooSmall, stuckQueue) \<and>
   actionQueue stuckQueue = actionQueue twoQueued \<and>
   effects stuckQueue = [SettingsSetBluetoothEnabled] \<and>
   bt_getAdapterSuccess \<lparr>address = ''11:22:33:44:55:66''\<rparr> stuckQueue =
     Some (Throws BufferTooSmall, stuckQueue)"
  by (simp add: handleHandoverRequest_def handleHandoverSelect_def doAction_def
        bt_getAdapterSuccess_def drainQueue.simps doHandoverRequest_def
        getBluetoothMAC_truncated_request getBluetoothMAC_good_select
        oneQueued_def twoQueued_def stuckQueue_def initialManager_def)

section \<open>Zero-length OOB elements\<close>

lemma parse_zero_length_last:
  "parseBluetoothSSP \<lparr>tnf = 2, type_bytes = bluetoothOobType, id_bytes = [],
                      payload = [8, 0, 1, 2, 3, 4, 5, 6, 0, 1]\<rparr> = Some (Inl BufferTooSmall)"
  by (simp add: parseBluetoothSSP_def newBuffer_def getOctet_def skip_def
        oobLoop.simps macLoop6 macLoop_Suc hexPair_def upperHexDigit_def del: macLoop.simps(2))

lemma parse_zero_length_then_one:
  "parseBluetoothSSP \<lparr>tnf = 2, type_bytes = bluetoothOobType, id_bytes = [],
                      payload = [8, 0, 1, 2, 3, 4, 5, 6, 0, 1, 7]\<rparr> =
   Some (Inr \<lparr>mac = ''06:05:04:03:02:01'', localName = None\<rparr>)"
  by (simp add: parseBluetoothSSP_def newBuffer_def getOctet_def skip_def
        oobLoop.simps macLoop6 macLoop_Suc hexPair_def upperHexDigit_def del: macLoop.simps(2))

text \<open>
  C10 (as amended). In the loop of \<^verbatim>\<open>parseBluetoothSSP\<close>, at an OOB element inside the
  payload whose length octet is 0 and whose type octet is neither 8 nor 9: the length of
  the value is computed as -1, \<^verbatim>\<open>skip(-1)\<close> passes the bounds check and moves the cursor
  back by one, and the loop goes on one octet after the start of the element, where the
  type octet of the element is read as the next length octet. The element is not rejected
  where it stands; what becomes of the parse depends on what follows. When the element is
  the last two octets of the payload the parse throws \<^verbatim>\<open>'Buffer too small'\<close>; when it is
  followed by one last octet other than 8 and 9 and its type octet is 1, the loop ends
  normally.
\<close>

theorem zero_length_oob_element_step:
  assumes "offset buf = Num k" and "0 \<le> k" and "k + 1 < int (length (uint8array buf))"
    and "uint8array buf ! nat k = 0" and "uint8array buf ! nat (k + 1) = t"
    and "t \<noteq> 8" and "t \<noteq> 9"
  shows "jsadd (toNumber (Some (uint8array buf ! nat k))) (Num (- 1)) = Num (- 1) \<and>
         skip (buf\<lparr>offset := Num (k + 2)\<rparr>) (Num (- 1)) = Inr (buf\<lparr>offset := Num (k + 1)\<rparr>) \<and>
         oobLoop (length (uint8array buf)) name buf =
           oobLoop (length (uint8array buf)) name (buf\<lparr>offset := Num (k + 1)\<rparr>) \<and>
         getOctet (buf\<lparr>offset := Num (k + 1)\<rparr>) = Inr (Some t, buf\<lparr>offset := Num (k + 2)\<rparr>) \<and>
         (k + 2 = int (length (uint8array buf)) \<longrightarrow>
            oobLoop (length (uint8array buf)) name buf = Some (Inl BufferTooSmall)) \<and>
         (k + 3 = int (length (uint8array buf)) \<and> t = 1 \<and>
            uint8array buf ! nat (k + 2) \<noteq> 8 \<and> uint8array buf ! nat (k + 2) \<noteq> 9 \<longrightarrow>
            oobLoop (length (uint8array buf)) name buf = Some (Inr name))"
proof -
  let ?n = "length (uint8array buf)"
  have g1: "getOctet buf = Inr (Some 0, buf\<lparr>offset := Num (k + 1)\<rparr>)"
    using assms by (simp add: getOctet_def)
  have g2: "getOctet (buf\<lparr>offset := Num (k + 1)\<rparr>) = Inr (Some t, buf\<lparr>offset := Num (k + 2)\<rparr>)"
    using assms by (simp add: getOctet_def)
  have sk: "skip (buf\<lparr>offset := Num (k + 2)\<rparr>) (Num (- 1)) = Inr (buf\<lparr>offset := Num (k + 1)\<rparr>)"
    using assms by (simp add: skip_def)
  have step: "oobLoop ?n name buf = oobLoop ?n name (buf\<lparr>offset := Num (k + 1)\<rparr>)"
    apply (subst oobLoop.simps)
    using assms by (simp add: g1 g2 sk)
  have last: "oobLoop ?n name buf = Some (Inl BufferTooSmall)" if e: "k + 2 = int ?n"
  proof -
    have g3: "getOctet (buf\<lparr>offset := Num (int ?n)\<rparr>) = Inl BufferTooSmall"
      by (simp add: getOctet_def)
    have "oobLoop ?n name (buf\<lparr>offset := Num (k + 1)\<rparr>) = Some (Inl BufferTooSmall)"
      apply (subst oobLoop.simps)
      using e by (simp add: g2 g3)
    with step show ?thesis by simp
  qed
  have more: "oobLoop ?n name buf = Some (Inr name)"
    if e: "k + 3 = int ?n" and t1: "t = 1"
      and u: "uint8array buf ! nat (k + 2) \<noteq> 8" "uint8array buf ! nat (k + 2) \<noteq> 9"
  proof -
    have g3: "getOctet (buf\<lparr>offset := Num (k + 2)\<rparr>) =
              Inr (Some (uint8array buf ! nat (k + 2)), buf\<lparr>offset := Num (int ?n)\<rparr>)"
      using e assms(2) by (simp add: getOctet_def) 
    have sk0: "skip (buf\<lparr>offset := Num (int ?n)\<rparr>) (Num 0) = Inr (buf\<lparr>offset := Num (int ?n)\<rparr>)"
      by (simp add: skip_def)
    have fin: "oobLoop ?n name (buf\<lparr>offset := Num (int ?n)\<rparr>) = Some (Inr name)"
      by (subst oobLoop.simps) simp
    have "oobLoop ?n name (buf\<lparr>offset := Num (k + 1)\<rparr>) = Some (Inr name)"
      apply (subst oobLoop.simps)
      using e u t1 by (simp add: g2 g3 sk0 fin)
    with step show ?thesis by simp
  qed
  from assms sk step g2 last more show ?thesis by simp
qed

theorem zero_length_oob_element_step_witness:
  "oobLoop (length (uint8array zeroLengthLast)) None zeroLengthLast = Some (Inl BufferTooSmall) \<and>
   oobLoop (length (uint8array zeroLengthElement)) None zeroLengthElement = Some (Inr None) \<and>
   oobLoop (length (uint8array zeroLengthElement)) None zeroLengthElement =
     oobLoop (length (uint8array zeroLengthElement)) None (zeroLengthElement\<lparr>offset := Num (8 + 1)\<rparr>) \<and>
   getOctet (zeroLengthElement\<lparr>offset := Num (8 + 1)\<rparr>) =
     Inr (Some 1, zeroLengthElement\<lparr>offset := Num (8 + 2)\<rparr>) \<and>
   parseBluetoothSSP \<lparr>tnf = 2, type_bytes = bluetoothOobType, id_bytes = [],
                      payload = uint8array zeroLengthLast\<rparr> = Some (Inl BufferTooSmall) \<and>
   parseBluetoothSSP \<lparr>tnf = 2, type_bytes = bluetoothOobType, id_bytes = [],
                      payload = uint8array zeroLengthElement\<rparr> =
     Some (Inr \<lparr>mac = ''06:05:04:03:02:01'', localName = None\<rparr>)"
proof -
  have a1: "offset zeroLengthLast = Num 8"
    and a3: "8 + 1 < int (length (uint8array zeroLengthLast))"
    and a4: "uint8array zeroLengthLast ! nat 8 = 0"
    and a5: "uint8array zeroLengthLast ! nat (8 + 1) = 1"
    and a8: "8 + 2 = int (length (uint8array zeroLengthLast))"
    by (simp_all add: zeroLengthLast_def)
  have h1: "offset zeroLengthElement = Num 8"
    and h3: "8 + 1 < int (length (uint8array zeroLengthElement))"
    and h4: "uint8array zeroLengthElement ! nat 8 = 0"
    and h5: "uint8array zeroLengthElement ! nat (8 + 1) = 1"
    and h8: "8 + 3 = int (length (uint8array zeroLengthElement))"
    and h9: "uint8array zeroLengthElement ! nat (8 + 2) \<noteq> 8"
            "uint8array zeroLengthElement ! nat (8 + 2) \<noteq> 9"
    by (simp_all add: zeroLengthElement_def)
  have h2: "(0::int) \<le> 8" and h6: "(1::byte) \<noteq> 8" and h7: "(1::byte) \<noteq> 9"
    by simp_all
  note last = zero_length_oob_element_step [OF a1 h2 a3 a4 a5 h6 h7, of None]
  note more = zero_length_oob_element_step [OF h1 h2 h3 h4 h5 h6 h7, of None]
  from last a8
  have c1: "oobLoop (length (uint8array zeroLengthLast)) None zeroLengthLast =
            Some (Inl BufferTooSmall)"
    by blast
  from more h8 h9
  have c2: "oobLoop (length (uint8array zeroLengthElement)) None zeroLengthElement = Some (Inr None)"
    by blast
  from more
  have c3: "oobLoop (length (uint8array zeroLengthElement)) None zeroLengthElement =
     oobLoop (length (uint8array zeroLengthElement)) None (zeroLengthElement\<lparr>offset := Num (8 + 1)\<rparr>)"
    and c4: "getOctet (zeroLengthElement\<lparr>offset := Num (8 + 1)\<rparr>) =
     Inr (Some 1, zeroLengthElement\<lparr>offset := Num (8 + 2)\<rparr>)"
    by blast+
  have p1: "parseBluetoothSSP \<lparr>tnf = 2, type_bytes = bluetoothOobType, id_bytes = [],
                      payload = uint8array zeroLengthLast\<rparr> = Some (Inl BufferTooSmall)"
    using parse_zero_length_last by (simp add: zeroLengthLast_def)
  have p2: "parseBluetoothSSP \<lparr>tnf = 2, type_bytes = bluetoothOobType, id_bytes = [],
                      payload = uint8array zeroLengthElement\<rparr> =
     Some (Inr \<lparr>mac = ''06:05:04:03:02:01'', localName = None\<rparr>)"
    using parse_zero_length_then_one by (simp add: zeroLengthElement_def)
  from c1 c2 c3 c4 p1 p2 show ?thesis by (intro conjI)
qed

text \<open>
  C10 (as stated) fails: a zero-length element of type 1 at the end of the payload makes the
  parse throw, where the same payload without the element is parsed.
\<close>

theorem zero_length_oob_element_fails_counterexample:
  "parseBluetoothSSP \<lparr>tnf = 2, type_bytes = bluetoothOobType, id_bytes = [],
                      payload = [8, 0, 1, 2, 3, 4, 5, 6, 0, 1]\<rparr> = Some (Inl BufferTooSmall) \<and>
   parseBluetoothSSP \<lparr>tnf = 2, type_bytes = bluetoothOobType, id_bytes = [],
                      payload = [8, 0, 1, 2, 3, 4, 5, 6]\<rparr> =
     Some (Inr \<lparr>mac = ''06:05:04:03:02:01'', localName = None\<rparr>)"
  by (simp add: parse_zero_length_last parseBluetoothSSP_eight hexPair_def upperHexDigit_def)

section \<open>A Select without a Bluetooth carrier\<close>

lemma searchAcList_None:
  "\<forall>a\<in>set acs. \<not> (tnf (cdr a) = tnf_mime_media \<and>
       toUTF8 (type_bytes (cdr a)) = ''application/vnd.bluetooth.ep.oob'') \<Longrightarrow>
   searchAcList acs = None"
  by (induction acs) auto

text \<open>
  C9. When \<^verbatim>\<open>NdefHandoverCodec.parse\<close> returns a handover object none of whose alternative
  carriers has a carrier data record of type name format mime-media and type
  \<^verbatim>\<open>application/vnd.bluetooth.ep.oob\<close>, \<^verbatim>\<open>handleHandoverSelect\<close> returns and leaves the
  whole manager as it was: nothing is queued or run, and nothing is asked of a collaborator.
\<close>

theorem select_without_bluetooth_carrier_unchanged:
  assumes "NdefHandoverCodec_parse ndef = Some (Some h)"
    and "\<forall>a\<in>set (ac h). \<not> (tnf (cdr a) = tnf_mime_media \<and>
           toUTF8 (type_bytes (cdr a)) = ''application/vnd.bluetooth.ep.oob'')"
  shows "handleHandoverSelect ndef s = Some (Returns, s)"
  using assms
  by (simp add: handleHandoverSelect_def getBluetoothMAC_def searchForBluetoothAC_def
        searchAcList_None)

theorem select_without_bluetooth_carrier_unchanged_witness:
  "NdefHandoverCodec_parse (selectMessage [] []) =
     Some (Some \<lparr>majorVersion = 1, minorVersion = 2,
       ac = [\<lparr>cps = 1, cdr = \<lparr>tnf = 2, type_bytes = [], id_bytes = [0x30], payload = []\<rparr>\<rparr>],
       htype = ''Hs'', cr = None\<rparr>) \<and>
   handleHandoverSelect (selectMessage [] []) pendingTransfer = Some (Returns, pendingTransfer)"
proof -
  have p: "NdefHandoverCodec_parse (selectMessage [] []) =
     Some (Some \<lparr>majorVersion = 1, minorVersion = 2,
       ac = [\<lparr>cps = 1, cdr = \<lparr>tnf = 2, type_bytes = [], id_bytes = [0x30], payload = []\<rparr>\<rparr>],
       htype = ''Hs'', cr = None\<rparr>)"
    by (rule parse_selectMessage)
  have "handleHandoverSelect (selectMessage [] []) pendingTransfer = Some (Returns, pendingTransfer)"
    by (rule select_without_bluetooth_carrier_unchanged [OF p]) (simp add: toUTF8_def)
  with p show ?thesis by simp
qed

section \<open>Alternative carrier records\<close>

lemma parseAcLoop_types:
  "parseAcLoop acc ndef recs = Inr acs \<Longrightarrow>
   \<forall>r\<in>set recs. type_bytes r = rtd_alternative_carrier"
  by (induction recs arbitrary: acc) (auto simp: equalArrays_eq split: if_splits sum.splits)

lemma parseAcLoop_length:
  "parseAcLoop acc ndef recs = Inr acs \<Longrightarrow> length acs = length acc + length recs"
  by (induction recs arbitrary: acc) (auto simp: equalArrays_eq split: if_splits sum.splits)

lemma parseAcLoop_Inr:
  "parseAcLoop acc ndef recs = Inr acs \<Longrightarrow>
   (\<forall>r\<in>set recs. type_bytes r = rtd_alternative_carrier) \<and>
   length acs = length acc + length recs"
  using parseAcLoop_types parseAcLoop_length by blast

text \<open>
  C5 (as amended). Let the first record of a message have a payload whose embedded NDEF
  message parses. If \<^verbatim>\<open>NdefHandoverCodec.parse\<close> returns a handover object, every embedded
  record in the alternative carrier region (from index 1 for \<^verbatim>\<open>'Hr'\<close>, from index 0 for
  \<^verbatim>\<open>'Hs'\<close>) has the type \<^verbatim>\<open>ac\<close>, and each gave one alternative carrier. If an embedded
  record of the region has another type, the parse returns \<^verbatim>\<open>null\<close>. The type name
  format of the embedded records is not checked.
\<close>

theorem alternative_carrier_records_typed_ac:
  assumes "getOctet (newBuffer (payload record)) = Inr (version, buffer)"
    and "NdefCodec_parse buffer = Some (Some embeddedNdef)"
  shows "(\<forall>h. NdefHandoverCodec_parse (record # rest) = Some (Some h) \<longrightarrow>
            (\<forall>r\<in>set (drop (if htype h = ''Hr'' then 1 else 0) embeddedNdef).
                type_bytes r = rtd_alternative_carrier) \<and>
            length (ac h) = length (drop (if htype h = ''Hr'' then 1 else 0) embeddedNdef)) \<and>
         ((\<exists>r\<in>set (drop (if type_bytes record = rtd_handover_request then 1 else 0) embeddedNdef).
                type_bytes r \<noteq> rtd_alternative_carrier) \<longrightarrow>
            NdefHandoverCodec_parse (record # rest) = Some None)"
proof -
  have hs_ne_hr: "rtd_handover_select \<noteq> rtd_handover_request"
    by (simp add: rtd_handover_select_def rtd_handover_request_def fromUTF8_def)
  have a: "\<And>h. NdefHandoverCodec_parse (record # rest) = Some (Some h) \<Longrightarrow>
            (\<forall>r\<in>set (drop (if htype h = ''Hr'' then 1 else 0) embeddedNdef).
                type_bytes r = rtd_alternative_carrier) \<and>
            length (ac h) = length (drop (if htype h = ''Hr'' then 1 else 0) embeddedNdef)"
    using assms
    by (auto simp: NdefHandoverCodec_parse_def NdefHandoverCodec_doParse_def doParseEmbedded_def
          parseAcRecords_def Let_def equalArrays_eq
          dest!: parseAcLoop_Inr
          split: if_splits sum.splits list.splits option.splits)
  have b: "(\<exists>r\<in>set (drop (if type_bytes record = rtd_handover_request then 1 else 0) embeddedNdef).
                type_bytes r \<noteq> rtd_alternative_carrier) \<Longrightarrow>
            NdefHandoverCodec_parse (record # rest) = Some None"
    using assms hs_ne_hr
    by (auto simp: NdefHandoverCodec_parse_def NdefHandoverCodec_doParse_def doParseEmbedded_def
          parseAcRecords_def Let_def equalArrays_eq
          dest!: parseAcLoop_types
          split: if_splits sum.splits list.splits option.splits)
  from a b show ?thesis by blast
qed

lemma nested_parse:
  "NdefCodec_parse \<lparr>uint8array = [0x12, 0xD2, 2, 4, t0, t1, 1, 1, 0x30, 0], offset = Num 1\<rparr> =
   Some (Some [\<lparr>tnf = 2, type_bytes = [t0, t1], id_bytes = [], payload = [1, 1, 0x30, 0]\<rparr>])"
  by (simp add: eval_defs)

theorem alternative_carrier_records_typed_ac_witness:
  "NdefHandoverCodec_parse (selectWithNested 0xD2 [97, 99]) =
     Some (Some \<lparr>majorVersion = 1, minorVersion = 2,
       ac = [\<lparr>cps = 1, cdr = \<lparr>tnf = 2, type_bytes = bluetoothOobType, id_bytes = [0x30],
                               payload = [8, 0, 1, 2, 3, 4, 5, 6]\<rparr>\<rparr>],
       htype = ''Hs'', cr = None\<rparr>) \<and>
   list_all (\<lambda>r. type_bytes r = rtd_alternative_carrier)
     [\<lparr>tnf = 2, type_bytes = [97, 99], id_bytes = [], payload = [1, 1, 0x30, 0]\<rparr>] \<and>
   type_bytes \<lparr>tnf = 2, type_bytes = [120, 99], id_bytes = [], payload = [1, 1, 0x30, 0 :: byte]\<rparr>
     \<noteq> rtd_alternative_carrier \<and>
   NdefHandoverCodec_parse (selectWithNested 0xD2 [120, 99]) = Some None"
proof -
  let ?rec = "\<lambda>ty. \<lparr>tnf = 1, type_bytes = [72, 115], id_bytes = [],
                     payload = [0x12, 0xD2, 2, 4] @ ty @ [1, 1, 0x30, 0 :: byte]\<rparr>"
  let ?rest = "[\<lparr>tnf = 2, type_bytes = bluetoothOobType, id_bytes = [0x30],
                 payload = [8, 0, 1, 2, 3, 4, 5, 6 :: byte]\<rparr>]"
  have g: "getOctet (newBuffer (payload (?rec [t0, t1]))) =
           Inr (Some 0x12, \<lparr>uint8array = [0x12, 0xD2, 2, 4, t0, t1, 1, 1, 0x30, 0], offset = Num 1\<rparr>)"
    for t0 t1
    by (simp add: getOctet_def newBuffer_def)
  have ok: "NdefHandoverCodec_parse (selectWithNested 0xD2 [97, 99]) =
     Some (Some \<lparr>majorVersion = 1, minorVersion = 2,
       ac = [\<lparr>cps = 1, cdr = \<lparr>tnf = 2, type_bytes = bluetoothOobType, id_bytes = [0x30],
                               payload = [8, 0, 1, 2, 3, 4, 5, 6]\<rparr>\<rparr>],
       htype = ''Hs'', cr = None\<rparr>)"
    by (simp add: selectWithNested_def eval_defs)
  have types: "list_all (\<lambda>r. type_bytes r = rtd_alternative_carrier)
     [\<lparr>tnf = 2, type_bytes = [97, 99], id_bytes = [], payload = [1, 1, 0x30, 0]\<rparr>]"
    using alternative_carrier_records_typed_ac [OF g nested_parse, of 97 99 ?rest] ok
    by (simp add: selectWithNested_def)
  have ne: "type_bytes \<lparr>tnf = 2, type_bytes = [120, 99], id_bytes = [], payload = [1, 1, 0x30, 0 :: byte]\<rparr>
     \<noteq> rtd_alternative_carrier"
    by (simp add: rtd_alternative_carrier_def fromUTF8_def)
  have hs: "type_bytes (?rec [120, 99]) \<noteq> rtd_handover_request"
    by (simp add: rtd_handover_request_def fromUTF8_def)
  have bad: "NdefHandoverCodec_parse (selectWithNested 0xD2 [120, 99]) = Some None"
    using alternative_carrier_records_typed_ac [OF g nested_parse, of 120 99 ?rest] ne hs
    by (simp add: selectWithNested_def)
  from ok types ne bad show ?thesis by (intro conjI)
qed
text \<open>
  C5 (as stated) fails: an embedded record with the type \<^verbatim>\<open>ac\<close> and the type name format
  mime-media (2) instead of well-known (1) is accepted as an alternative carrier record.
\<close>

theorem nested_tnf_unchecked_counterexample:
  "NdefCodec_parse \<lparr>uint8array = [0x12, 0xD2, 2, 4, 97, 99, 1, 1, 0x30, 0], offset = Num 1\<rparr> =
     Some (Some [\<lparr>tnf = 2, type_bytes = [97, 99], id_bytes = [], payload = [1, 1, 0x30, 0]\<rparr>]) \<and>
   tnf_well_known = 1 \<and>
   NdefHandoverCodec_parse (selectWithNested 0xD2 [97, 99]) =
     Some (Some \<lparr>majorVersion = 1, minorVersion = 2,
       ac = [\<lparr>cps = 1, cdr = \<lparr>tnf = 2, type_bytes = bluetoothOobType, id_bytes = [0x30],
                               payload = [8, 0, 1, 2, 3, 4, 5, 6]\<rparr>\<rparr>],
       htype = ''Hs'', cr = None\<rparr>)"
  by (simp add: selectWithNested_def eval_defs)

section \<open>Round trip of a Handover Request\<close>

lemma split_colon_no_colon: "CHR '':'' \<notin> set g \<Longrightarrow> split_colon g = [g]"
  by (induction g) auto

lemma split_colon_group:
  "CHR '':'' \<notin> set g \<Longrightarrow> split_colon (g @ CHR '':'' # rest) = g # split_colon rest"
  by (induction g) auto

lemma upper_digit_cases: "isUpperHexDigit c \<Longrightarrow> c \<in> set ''0123456789ABCDEF''"
  by (simp only: isUpperHexDigit_def)

lemma upper_digit_facts:
  assumes "isUpperHexDigit c"
  shows "\<not> isWhiteSpace c \<and> c \<noteq> CHR ''-'' \<and> c \<noteq> CHR ''+'' \<and> c \<noteq> CHR ''x'' \<and> c \<noteq> CHR ''X'' \<and>
         c \<noteq> CHR '':'' \<and> (\<exists>v<16. hexValue c = Some v \<and> upperHexDigit v = c)"
  using upper_digit_cases [OF assms]
  by (auto simp: isWhiteSpace_def hexValue_def upperHexDigit_def)

lemma parseInt16_pair:
  assumes "isUpperHexDigit c1" and "isUpperHexDigit c2"
  shows "\<exists>v1 v2. v1 < 16 \<and> v2 < 16 \<and> parseInt16 [c1, c2] = Num (int (16 * v1 + v2)) \<and>
                 upperHexDigit v1 = c1 \<and> upperHexDigit v2 = c2"
proof -
  from upper_digit_facts [OF assms(1)] obtain v1 where
    c1: "\<not> isWhiteSpace c1" "c1 \<noteq> CHR ''-''" "c1 \<noteq> CHR ''+''" "v1 < 16" "hexValue c1 = Some v1"
        "upperHexDigit v1 = c1"
    by blast
  from upper_digit_facts [OF assms(2)] obtain v2 where
    c2: "c2 \<noteq> CHR ''x''" "c2 \<noteq> CHR ''X''" "v2 < 16" "hexValue c2 = Some v2" "upperHexDigit v2 = c2"
    by blast
  have "int v1 * 16 + int v2 < 2 ^ 53"
    using c1(4) c2(3) by simp
  then have "parseInt16 [c1, c2] = Num (int (16 * v1 + v2))"
    using c1 c2 by (simp add: parseInt16_def roundDouble_def)
  with c1 c2 show ?thesis by blast
qed

lemma unat_byte_of_int: "n < 256 \<Longrightarrow> unat (word_of_int (int n) :: byte) = n"
  by (simp add: unat_of_nat)

lemma hexPair_of_digits:
  assumes "v1 < 16" and "v2 < 16"
  shows "hexPair (toUint8 (Num (int (16 * v1 + v2)))) = [upperHexDigit v1, upperHexDigit v2]"
proof -
  have "16 * v1 + v2 < 256" using assms by simp
  then have u: "unat (word_of_int (int (16 * v1 + v2)) :: byte) = 16 * v1 + v2"
    by (rule unat_byte_of_int)
  have "hexPair (toUint8 (Num (int (16 * v1 + v2)))) =
        [upperHexDigit ((16 * v1 + v2) div 16), upperHexDigit ((16 * v1 + v2) mod 16)]"
    unfolding hexPair_def toUint8.simps u ..
  then show ?thesis using assms by simp
qed

lemma pair_round_trip:
  assumes "isUpperHexPair g"
  shows "hexPair (toUint8 (parseInt16 g)) = g"
proof -
  from assms obtain c1 c2 where g: "g = [c1, c2]" and d: "isUpperHexDigit c1" "isUpperHexDigit c2"
    by (auto simp: isUpperHexPair_def length_Suc_conv eval_nat_numeral)
  from parseInt16_pair [OF d] obtain v1 v2 where
    "v1 < 16" "v2 < 16" "parseInt16 [c1, c2] = Num (int (16 * v1 + v2))"
    "upperHexDigit v1 = c1" "upperHexDigit v2 = c2"
    by blast
  then show ?thesis unfolding g by (simp only: hexPair_of_digits)
qed

lemma pair_no_colon: "isUpperHexPair g \<Longrightarrow> CHR '':'' \<notin> set g"
  using upper_digit_facts by (auto simp: isUpperHexPair_def list_all_iff)

lemma reassemble_16: 
  fixes w :: "32 word"
  assumes "w < 0x10000"
  shows "push_bit 8 (ucast (ucast (drop_bit 8 w) :: 8 word)) OR ucast (ucast (w AND 0xff) :: 8 word) = w"
proof -
  have "w < 2 ^ 16" using assms by simp
  then have tb: "w AND mask 16 = w" by (rule less_mask_eq)
  have hi: "bit w n \<longrightarrow> n < 16" for n
  proof
    assume "bit w n"
    then have "bit (w AND mask 16) n" by (simp only: tb)
    then show "n < 16" by (simp add: bit_simps)
  qed
  have m: "(0xff :: 32 word) = mask 8" by (simp add: mask_eq_exp_minus_1)
  show ?thesis
    apply (rule bit_word_eqI)
    subgoal for n
      using hi [of n] unfolding m
      by (auto simp add: bit_simps)
    done
qed

lemma collision_value_round_trip:
  assumes "0 \<le> rnd" "rnd < 65536"
  shows "sint (push_bit 8 (ucast (ucast (drop_bit 8 (word_of_int rnd :: 32 word)) :: 8 word) :: 32 word)
               OR ucast (ucast ((word_of_int rnd :: 32 word) AND 0xff) :: 8 word)) = rnd"
proof -
  have "uint (word_of_int rnd :: 32 word) = rnd"
    using assms by (simp add: uint_word_of_int)
  then have lt: "(word_of_int rnd :: 32 word) < 0x10000"
    using assms by (simp add: word_less_def)
  have "sint (word_of_int rnd :: 32 word) = rnd"
    using assms by (simp add: signed_of_int signed_take_bit_int_eq_self)
  then show ?thesis by (simp only: reassemble_16 [OF lt])
qed

lemma parse_request_symbolic:
  "NdefHandoverCodec_parse
     [\<lparr>tnf = 1, type_bytes = [72, 114], id_bytes = [],
       payload = [18, 145, 2, 2, 99, 114, hi, lo, 81, 2, 4, 97, 99, c, 1, 98, 0]\<rparr>,
      \<lparr>tnf = 2, type_bytes = ty, id_bytes = [98], payload = oob\<rparr>] =
   Some (Some \<lparr>majorVersion = 1, minorVersion = 2,
      ac = [\<lparr>cps = unat ((ucast c :: 32 word) AND 3),
             cdr = \<lparr>tnf = 2, type_bytes = ty, id_bytes = [98], payload = oob\<rparr>\<rparr>],
      htype = ''Hr'',
      cr = Some (sint (push_bit 8 (ucast hi :: 32 word) OR ucast lo))\<rparr>)"
  by (simp add: eval_defs)

text \<open>
  C3. Let the address be six groups of two upper-case hexadecimal digits each, joined by
  colons, and the collision value be a 16-bit number. For every power state,
  \<^verbatim>\<open>encodeHandoverRequest\<close> returns a message; \<^verbatim>\<open>NdefHandoverCodec.parse\<close> of it returns a
  handover object of type \<^verbatim>\<open>'Hr'\<close> with the same collision value; its Bluetooth carrier
  is found by \<^verbatim>\<open>searchForBluetoothAC\<close>, and \<^verbatim>\<open>parseBluetoothSSP\<close> of that record gives
  the same address string, which is also what \<^verbatim>\<open>getBluetoothMAC\<close> returns.
\<close>

theorem request_round_trip:
  assumes g: "isUpperHexPair g0" "isUpperHexPair g1" "isUpperHexPair g2"
             "isUpperHexPair g3" "isUpperHexPair g4" "isUpperHexPair g5"
    and m: "macStr = g0 @ '':'' @ g1 @ '':'' @ g2 @ '':'' @ g3 @ '':'' @ g4 @ '':'' @ g5"
    and r: "0 \<le> rnd" "rnd < 65536"
  shows "\<exists>msg h carrier.
           encodeHandoverRequest macStr cpsVal rnd = Some msg \<and>
           NdefHandoverCodec_parse msg = Some (Some h) \<and>
           htype h = ''Hr'' \<and> cr h = Some rnd \<and>
           searchForBluetoothAC h = Some carrier \<and>
           parseBluetoothSSP carrier = Some (Inr \<lparr>mac = macStr, localName = None\<rparr>) \<and>
           getBluetoothMAC msg = Some (Inr (Some macStr))"
proof -
  let ?b = "\<lambda>v. toUint8 (parseInt16 v)"
  let ?oob = "[8, 0, ?b g5, ?b g4, ?b g3, ?b g2, ?b g1, ?b g0]"
  let ?carrier = "\<lparr>tnf = 2, type_bytes = bluetoothOobType, id_bytes = [98], payload = ?oob\<rparr>"
  let ?hi = "ucast (drop_bit 8 (word_of_int rnd :: 32 word)) :: byte"
  let ?lo = "ucast ((word_of_int rnd :: 32 word) AND 0xff) :: byte"
  let ?msg = "[\<lparr>tnf = 1, type_bytes = [72, 114], id_bytes = [],
                payload = [18, 145, 2, 2, 99, 114, ?hi, ?lo, 81, 2, 4, 97, 99,
                           word_of_int cpsVal, 1, 98, 0]\<rparr>, ?carrier]"
  let ?h = "\<lparr>majorVersion = 1, minorVersion = 2,
      ac = [\<lparr>cps = unat ((ucast (word_of_int cpsVal :: byte) :: 32 word) AND 3), cdr = ?carrier\<rparr>],
      htype = ''Hr'', cr = Some rnd\<rparr>"
  have sp: "split_colon macStr = [g0, g1, g2, g3, g4, g5]"
    unfolding m using g
    by (simp add: split_colon_group split_colon_no_colon pair_no_colon)
  have enc: "encodeHandoverRequest macStr cpsVal rnd = Some ?msg"
    by (simp add: encodeHandoverRequest_def sp oobPayload_def)
  have parse: "NdefHandoverCodec_parse ?msg = Some (Some ?h)"
    by (simp only: parse_request_symbolic collision_value_round_trip [OF r])
  have search: "searchForBluetoothAC ?h = Some ?carrier"
    by (rule search_single_bluetooth)
  have ssp: "parseBluetoothSSP ?carrier = Some (Inr \<lparr>mac = macStr, localName = None\<rparr>)"
    unfolding m by (simp only: parseBluetoothSSP_eight pair_round_trip [OF g(1)]
        pair_round_trip [OF g(2)] pair_round_trip [OF g(3)] pair_round_trip [OF g(4)]
        pair_round_trip [OF g(5)] pair_round_trip [OF g(6)])
  have gm: "getBluetoothMAC ?msg = Some (Inr (Some macStr))"
    by (simp only: getBluetoothMAC_def parse search ssp option.case sum.case
          BluetoothSSP.select_convs)
  have "htype ?h = ''Hr''" and "cr ?h = Some rnd" by simp_all
  with enc parse search ssp gm show ?thesis by blast
qed

theorem request_round_trip_witness:
  "isUpperHexPair ''AA'' \<and> isUpperHexPair ''0B'' \<and>
   (\<exists>msg h carrier.
      encodeHandoverRequest ''AA:0B:CC:DD:EE:F9'' 1 0x1234 = Some msg \<and>
      NdefHandoverCodec_parse msg = Some (Some h) \<and>
      htype h = ''Hr'' \<and> cr h = Some 0x1234 \<and>
      searchForBluetoothAC h = Some carrier \<and>
      parseBluetoothSSP carrier = Some (Inr \<lparr>mac = ''AA:0B:CC:DD:EE:F9'', localName = None\<rparr>) \<and>
      getBluetoothMAC msg = Some (Inr (Some ''AA:0B:CC:DD:EE:F9'')))"
proof -
  have g: "isUpperHexPair ''AA''" "isUpperHexPair ''0B''" "isUpperHexPair ''CC''"
          "isUpperHexPair ''DD''" "isUpperHexPair ''EE''" "isUpperHexPair ''F9''"
    by (simp_all add: isUpperHexPair_def isUpperHexDigit_def)
  have m: "''AA:0B:CC:DD:EE:F9'' = ''AA'' @ '':'' @ ''0B'' @ '':'' @ ''CC'' @ '':'' @ ''DD'' @ '':'' @ ''EE'' @ '':'' @ ''F9''"
    by simp
  have r: "(0::int) \<le> 0x1234" "(0x1234::int) < 65536" by simp_all
  from request_round_trip [OF g m r, of 1] g(1) g(2) show ?thesis by blast
qed

section \<open>Header flags of NDEF records\<close>

lemma getOctet_Inl: "getOctet b = Inl e \<Longrightarrow> e = BufferTooSmall"
  by (simp add: getOctet_def split: if_splits)

lemma getOctetArray_Inl: "getOctetArray b n = Inl e \<Longrightarrow> e = BufferTooSmall"
  by (simp add: getOctetArray_def split: if_splits)

lemma readPayloadLen_Inl: "readPayloadLen i p b = Inl e \<Longrightarrow> e = BufferTooSmall"
  by (induction i arbitrary: p b) (auto dest: getOctet_Inl split: sum.splits)

lemma parseNdefRecord_Inl: "parseNdefRecord b octet = Inl e \<Longrightarrow> e = BufferTooSmall"
  by (auto simp: parseNdefRecord_def
      dest!: getOctet_Inl getOctetArray_Inl readPayloadLen_Inl
      split: sum.splits if_splits)

lemma headerViolation_Some:
  "headerViolation f octet = Some e \<Longrightarrow> e \<in> {MBNotSetInFirst, MBOnlyFirst, ChunkedRecord}"
  by (auto simp: headerViolation_def split: if_splits)

lemma loop_violation:
  "getOctet b = Inr (octet, b1) \<Longrightarrow> headerViolation f octet = Some e \<Longrightarrow>
   doParseLoop b f recs = Some (Inl e)"
  by (subst doParseLoop.simps) (auto simp: headerViolation_def split: if_splits)

lemma loop_clean:
  "getOctet b = Inr (octet, b1) \<Longrightarrow> headerViolation f octet = None \<Longrightarrow>
   doParseLoop b f recs =
     (case parseNdefRecord b1 octet of
        Inl e \<Rightarrow> Some (Inl e)
      | Inr (r, b2) \<Rightarrow>
          if \<not> flagSet octet ME then doParseLoop b2 False (recs @ [r])
          else Some (Inr (recs @ [r])))"
  by (subst doParseLoop.simps) (auto simp: headerViolation_def split: if_splits)

lemma reach_violation:
  "headerAt n b = Some octet \<Longrightarrow> headerViolation (f \<and> n = 0) octet = Some e \<Longrightarrow>
   (\<forall>m<n. \<forall>o'. headerAt m b = Some o' \<longrightarrow> headerViolation (f \<and> m = 0) o' = None) \<Longrightarrow>
   doParseLoop b f recs = Some (Inl e)"
proof (induction n arbitrary: b f recs)
  case 0
  then show ?case
    by (auto intro: loop_violation split: sum.splits)
next
  case (Suc n)
  from Suc.prems(1) obtain o1 b1 r b2 where
    g: "getOctet b = Inr (o1, b1)" and me: "\<not> flagSet o1 ME"
    and p: "parseNdefRecord b1 o1 = Inr (r, b2)" and h: "headerAt n b2 = Some octet"
    by (auto split: sum.splits if_splits)
  from g have "headerAt 0 b = Some o1" by simp
  with Suc.prems(3) have clean: "headerViolation f o1 = None" by auto
  have later: "\<forall>m<n. \<forall>o'. headerAt m b2 = Some o' \<longrightarrow> headerViolation (False \<and> m = 0) o' = None"
  proof (intro allI impI)
    fix m o' assume "m < n" "headerAt m b2 = Some o'"
    then have "Suc m < Suc n" "headerAt (Suc m) b = Some o'"
      using g me p by simp_all
    with Suc.prems(3) show "headerViolation (False \<and> m = 0) o' = None" by fastforce
  qed
  from Suc.prems(2) have v: "headerViolation (False \<and> n = 0) octet = Some e" by simp
  have "doParseLoop b2 False (recs @ [r]) = Some (Inl e)"
    by (rule Suc.IH [OF h v later])
  then show ?case
    using g clean me p by (simp add: loop_clean)
qed

lemma find_violation:
  "doParseLoop b f recs = Some y \<Longrightarrow>
   (\<forall>e. y = Inl e \<and> e \<in> {MBNotSetInFirst, MBOnlyFirst, ChunkedRecord} \<longrightarrow>
     (\<exists>n octet. headerAt n b = Some octet \<and> headerViolation (f \<and> n = 0) octet = Some e \<and>
        (\<forall>m<n. \<forall>o'. headerAt m b = Some o' \<longrightarrow> headerViolation (f \<and> m = 0) o' = None)))"
proof (induction rule: doParseLoop.raw_induct [rotated 1, consumes 1])
  case (1 loop b f recs y)
  show ?case
  proof (intro allI impI, elim conjE)
    fix e assume y: "y = Inl e" and eh: "e \<in> {MBNotSetInFirst, MBOnlyFirst, ChunkedRecord}"
    show "\<exists>n octet. headerAt n b = Some octet \<and> headerViolation (f \<and> n = 0) octet = Some e \<and>
        (\<forall>m<n. \<forall>o'. headerAt m b = Some o' \<longrightarrow> headerViolation (f \<and> m = 0) o' = None)"
    proof (cases "getOctet b")
      case (Inl e')
      with 1(2) y eh show ?thesis by (auto dest: getOctet_Inl)
    next
      case (Inr ob)
      obtain o1 b1 where ob: "ob = (o1, b1)" by (cases ob)
      note g = Inr [unfolded ob]
      show ?thesis
      proof (cases "headerViolation f o1")
        case (Some e')
        with 1(2) g y have "e' = e"
          by (auto simp: headerViolation_def split: if_splits)
        with Some g have "headerAt 0 b = Some o1 \<and> headerViolation (f \<and> (0::nat) = 0) o1 = Some e"
          by simp
        then show ?thesis by blast
      next
        case None
        then have body: "(case parseNdefRecord b1 o1 of
              Inl e \<Rightarrow> Some (Inl e)
            | Inr (r, b2) \<Rightarrow> if \<not> flagSet o1 ME then loop b2 False (recs @ [r])
                             else Some (Inr (recs @ [r]))) = Some y"
          using 1(2) g by (auto simp: headerViolation_def split: if_splits)
        show ?thesis
        proof (cases "parseNdefRecord b1 o1")
          case (Inl e')
          with body y eh show ?thesis by (auto dest: parseNdefRecord_Inl)
        next
          case (Inr rb)
          obtain r b2 where rb: "rb = (r, b2)" by (cases rb)
          note p = Inr [unfolded rb]
          from body p y have me: "\<not> flagSet o1 ME" and rec: "loop b2 False (recs @ [r]) = Some y"
            by (auto split: if_splits)
          from 1(1) [OF rec] y eh obtain n octet where
            h: "headerAt n b2 = Some octet"
            and v: "headerViolation (False \<and> n = 0) octet = Some e"
            and c: "\<forall>m<n. \<forall>o'. headerAt m b2 = Some o' \<longrightarrow> headerViolation (False \<and> m = 0) o' = None"
            by blast
          have h': "headerAt (Suc n) b = Some octet"
            using g me p h by simp
          have v': "headerViolation (f \<and> Suc n = 0) octet = Some e"
            using v by simp
          have c': "\<forall>m<Suc n. \<forall>o'. headerAt m b = Some o' \<longrightarrow> headerViolation (f \<and> m = 0) o' = None"
          proof (intro allI impI)
            fix m o' assume m: "m < Suc n" and hm: "headerAt m b = Some o'"
            show "headerViolation (f \<and> m = 0) o' = None"
            proof (cases m)
              case 0
              with hm g None show ?thesis by simp
            next
              case (Suc k)
              with hm g me p have "headerAt k b2 = Some o'" by simp
              moreover from Suc m have "k < n" by simp
              ultimately show ?thesis using c Suc by simp
            qed
          qed
          from h' v' c' show ?thesis by blast
        qed
      qed
    qed
  qed
qed

lemma header_failure_iff:
  "(NdefCodec_doParse b = Some (Inl e) \<and> e \<in> {MBNotSetInFirst, MBOnlyFirst, ChunkedRecord}) =
   firstHeaderViolation b e"
  unfolding firstHeaderViolation_def
proof
  assume "NdefCodec_doParse b = Some (Inl e) \<and> e \<in> {MBNotSetInFirst, MBOnlyFirst, ChunkedRecord}"
  then have l: "doParseLoop b True [] = Some (Inl e)"
    and eh: "e \<in> {MBNotSetInFirst, MBOnlyFirst, ChunkedRecord}"
    by (simp_all add: NdefCodec_doParse_def)
  from find_violation [OF l] eh
  have "\<exists>n octet. headerAt n b = Some octet \<and> headerViolation (True \<and> n = 0) octet = Some e \<and>
      (\<forall>m<n. \<forall>o'. headerAt m b = Some o' \<longrightarrow> headerViolation (True \<and> m = 0) o' = None)"
    by blast
  then show "\<exists>n octet. headerAt n b = Some octet \<and> headerViolation (n = 0) octet = Some e \<and>
      (\<forall>m<n. \<forall>o'. headerAt m b = Some o' \<longrightarrow> headerViolation (m = 0) o' = None)"
    by simp
next
  assume "\<exists>n octet. headerAt n b = Some octet \<and> headerViolation (n = 0) octet = Some e \<and>
      (\<forall>m<n. \<forall>o'. headerAt m b = Some o' \<longrightarrow> headerViolation (m = 0) o' = None)"
  then obtain n octet where h: "headerAt n b = Some octet"
    and v: "headerViolation (n = 0) octet = Some e"
    and c: "\<forall>m<n. \<forall>o'. headerAt m b = Some o' \<longrightarrow> headerViolation (m = 0) o' = None"
    by blast
  have "doParseLoop b True [] = Some (Inl e)"
    using reach_violation [of n b octet True e "[]"] h v c by simp
  with headerViolation_Some [OF v]
  show "NdefCodec_doParse b = Some (Inl e) \<and> e \<in> {MBNotSetInFirst, MBOnlyFirst, ChunkedRecord}"
    by (simp add: NdefCodec_doParse_def)
qed

text \<open>
  C8. \<^verbatim>\<open>NdefCodec.doParse\<close> throws one of its three header-flag errors exactly when some
  record header that it reaches violates the flags, and the error is the one of the first
  such header, with the three violations taken in the order: MB missing on the first
  record, MB set on a later record, CF set. \<^verbatim>\<open>NdefCodec.parse\<close> then returns \<^verbatim>\<open>null\<close>.
  A buffer without such a header is never rejected with a header-flag error.
\<close>

theorem decode_header_flag_failures:
  "((NdefCodec_doParse b = Some (Inl e) \<and> e \<in> {MBNotSetInFirst, MBOnlyFirst, ChunkedRecord}) =
      firstHeaderViolation b e) \<and>
   (firstHeaderViolation b e \<longrightarrow> NdefCodec_parse b = Some None)"
proof -
  have "NdefCodec_parse b = Some None" if "firstHeaderViolation b e"
  proof -
    from that have "NdefCodec_doParse b = Some (Inl e)"
      using header_failure_iff [of b e] by simp
    then show ?thesis by (simp add: NdefCodec_parse_def)
  qed
  then show ?thesis using header_failure_iff [of b e] by blast
qed

theorem decode_header_flag_failures_witness:
  "firstHeaderViolation (newBuffer [0x91, 0, 0, 0x91]) MBOnlyFirst \<and>
   NdefCodec_doParse (newBuffer [0x91, 0, 0, 0x91]) = Some (Inl MBOnlyFirst) \<and>
   NdefCodec_parse (newBuffer [0x91, 0, 0, 0x91]) = Some None"
proof -
  let ?b = "newBuffer [0x91, 0, 0, 0x91]"
  have h1: "headerAt (Suc 0) ?b = Some (Some 0x91)"
    by (simp add: newBuffer_def getOctet_def getOctetArray_def subarray_def clampIndex_def
          parseNdefRecord_def flagSet_def ME_def SR_def IL_def)
  have v1: "headerViolation (Suc 0 = 0) (Some 0x91) = Some MBOnlyFirst"
    by (simp add: headerViolation_def flagSet_def MB_def)
  have h0: "headerAt 0 ?b = Some (Some 0x91)"
    by (simp add: newBuffer_def getOctet_def)
  have v0: "headerViolation (0 = (0::nat)) (Some 0x91) = None"
    by (simp add: headerViolation_def flagSet_def MB_def CF_def)
  have c: "\<forall>m<Suc 0. \<forall>o'. headerAt m ?b = Some o' \<longrightarrow> headerViolation (m = 0) o' = None"
    using h0 v0 by simp
  have f: "firstHeaderViolation ?b MBOnlyFirst"
    unfolding firstHeaderViolation_def using h1 v1 c by blast
  from decode_header_flag_failures [of ?b MBOnlyFirst] f
  have "NdefCodec_doParse ?b = Some (Inl MBOnlyFirst)" and "NdefCodec_parse ?b = Some None"
    by blast+
  with f show ?thesis by blast
qed

section \<open>The action queue when no action throws\<close>

text \<open>What holds of the queue: an action submitted while Bluetooth is off is appended, and
  the settings are asked only when they have not been asked yet; an action submitted
  while Bluetooth is on is run at once; and the loop of the \<^verbatim>\<open>adapteradded\<close> listener
  runs the queued actions in their order up to the first that throws, clearing the queue
  only when none does.\<close>

lemma runAction_actionQueue:
  "runAction a s = Some (c, s1) \<Longrightarrow> actionQueue s1 = actionQueue s"
  by (cases a)
     (auto simp: doFileTransfer_def doPairing_def doHandoverRequest_def
        initiateFileTransfer_def Let_def
        split: if_splits option.splits sum.splits)

lemma drainQueue_runInOrder:
  "drainQueue i s =
     (case runInOrder (drop i (actionQueue s)) s of
        None \<Rightarrow> None
      | Some (Throws e, s1) \<Rightarrow> Some (Throws e, s1)
      | Some (Returns, s1) \<Rightarrow> Some (Returns, s1\<lparr>actionQueue := []\<rparr>))"
proof (induction "length (actionQueue s) - i" arbitrary: i s)
  case 0
  then show ?case by (subst drainQueue.simps) simp
next
  case (Suc k)
  then have lt: "i < length (actionQueue s)" by simp
  then have d: "drop i (actionQueue s) = actionQueue s ! i # drop (Suc i) (actionQueue s)"
    by (simp add: Cons_nth_drop_Suc)
  show ?case
  proof (cases "runAction (actionQueue s ! i) s")
    case None
    then show ?thesis using lt d by (subst drainQueue.simps) simp
  next
    case (Some cs)
    obtain c s1 where cs: "cs = (c, s1)" by (cases cs)
    note r = Some [unfolded cs]
    have q: "actionQueue s1 = actionQueue s" by (rule runAction_actionQueue [OF r])
    show ?thesis
    proof (cases c)
      case Returns
      have "k = length (actionQueue s1) - Suc i" using Suc(2) q by simp
      from Suc(1) [OF this] show ?thesis
        using lt d r Returns q by (subst drainQueue.simps) simp
    next
      case (Throws e)
      then show ?thesis using lt d r by (subst drainQueue.simps) simp
    qed
  qed
qed

lemma doAction_disabled:
  "\<not> bluetooth_enabled s \<Longrightarrow>
   doAction a s =
     Some (Returns,
       s\<lparr>actionQueue := actionQueue s @ [a],
         effects := effects s @ (if settingsNotified s then [] else [SettingsSetBluetoothEnabled]),
         settingsNotified := True\<rparr>)"
  by (simp add: doAction_def Let_def)

lemma doAction_enabled: "bluetooth_enabled s \<Longrightarrow> doAction a s = runAction a s"
  by (simp add: doAction_def)

section \<open>A parse that never returns\<close>

text \<open>A payload length with the top bit set is negative after the four shifts, and
  \<^verbatim>\<open>getOctetArray\<close> then moves the cursor back. With the length -6 the cursor returns to
  the header of the same record, which has no ME flag: \<^verbatim>\<open>NdefCodec.doParse\<close> reads the
  record again and again, and \<^verbatim>\<open>handleHandoverSelect\<close> never returns.\<close>

lemma readPayloadLen3:
  "readPayloadLen 3 p b = readPayloadLen (Suc (Suc (Suc 0))) p b"
  by (simp add: eval_nat_numeral)

lemma cycle_step:
  "getOctet cycleBuffer = Inr (Some 0, cycleBuffer\<lparr>offset := Num 5\<rparr>) \<and>
   parseNdefRecord (cycleBuffer\<lparr>offset := Num 5\<rparr>) (Some 0) =
     Inr (\<lparr>tnf = 0, type_bytes = [], id_bytes = [], payload = []\<rparr>, cycleBuffer)"
  by (simp add: cycleBuffer_def getOctet_def parseNdefRecord_def flagSet_def SR_def IL_def TNF_def
        getOctetArray_def subarray_def clampIndex_def readPayloadLen3)

lemma cycle_no_result:
  "doParseLoop b f rs = Some y \<Longrightarrow> b = cycleBuffer \<and> \<not> f \<longrightarrow> False"
proof (induction rule: doParseLoop.raw_induct [rotated 1, consumes 1])
  case (1 loop b f rs y)
  show ?case
  proof
    assume bf: "b = cycleBuffer \<and> \<not> f"
    with 1(2) cycle_step
    have "loop cycleBuffer False (rs @ [\<lparr>tnf = 0, type_bytes = [], id_bytes = [], payload = []\<rparr>]) = Some y"
      by (simp add: flagSet_def MB_def CF_def ME_def)
    from 1(1) [OF this] show False by simp
  qed
qed

lemma cycle_never_returns: "doParseLoop cycleBuffer False recs = None"
  using cycle_no_result [of cycleBuffer False recs]
  by (cases "doParseLoop cycleBuffer False recs") auto

lemma negative_payload_length_never_returns:
  "NdefCodec_parse \<lparr>uint8array = [0x12, 0x90, 0, 0, 0x00, 0, 0xFF, 0xFF, 0xFF, 0xFA],
                    offset = Num 1\<rparr> = None"
proof -
  have "doParseLoop \<lparr>uint8array = [0x12, 0x90, 0, 0, 0x00, 0, 0xFF, 0xFF, 0xFF, 0xFA],
                     offset = Num 1\<rparr> True [] =
        doParseLoop cycleBuffer False [\<lparr>tnf = 0, type_bytes = [], id_bytes = [], payload = []\<rparr>]"
    by (subst doParseLoop.simps)
       (simp add: cycleBuffer_def getOctet_def parseNdefRecord_def flagSet_def
          MB_def ME_def CF_def SR_def IL_def TNF_def getOctetArray_def subarray_def clampIndex_def)
  then show ?thesis
    by (simp add: NdefCodec_parse_def NdefCodec_doParse_def cycle_never_returns)
qed

lemma handleHandoverSelect_never_returns: "handleHandoverSelect loopingSelect s = None"
  by (simp add: handleHandoverSelect_def getBluetoothMAC_def NdefHandoverCodec_parse_def
        NdefHandoverCodec_doParse_def loopingSelect_def newBuffer_def getOctet_def
        negative_payload_length_never_returns)

end
